theory Spec2Isabelle
  imports Complex_Main "HOL-Library.Sublist" "HOL-Library.Code_Target_Nat"
begin

text \<open>
  A model of the transaction-text understanding code of Tracy, a personal finance tracker,
  and the proofs of ten properties of it.

  \<^item> The backend's rule-based parser: \<open>parseTransaction\<close> of the parser module (in
    \<open>src/unnamed/part_001\<close>, after the server module), with the catalog
    \<open>DEFAULT_CATEGORIES\<close> and the types of \<open>src/unnamed/part_002\<close>.
  \<^item> The desktop application's \<open>AIService\<close> (in \<open>src/scripts/tracy-cli.sh\<close>, after the
    shell script): \<open>parseWithRules\<close>, \<open>validateAndEnrich\<close> and the pipeline
    \<open>parseTransaction\<close>, which escalates a parse of low confidence to a language model;
    \<open>handleLocalQuery\<close>, \<open>buildFinancialContext\<close> and \<open>processQuery\<close> with its
    response cache.

  The database, the language model and the JavaScript host (its clock, its Unicode case
  mapping, its floating-point rounding and number formatting) are collaborators: what they
  return is a parameter of the model, and every property below holds for all of them.
\<close>

section \<open>Strings and numbers of the source language\<close>

text \<open>
  A JavaScript string is a sequence of UTF-16 code units; the regular expressions of the
  program carry no \<open>u\<close> flag, so they also work on code units. A string is modelled as
  the list of its code units (natural numbers); \<open>S\<close> turns an ASCII literal into one.
\<close>

type_synonym jsstring = "nat list"

definition S :: "string \<Rightarrow> jsstring" where
  "S s = map of_char s"

text \<open>The character classes of the regular expressions: \<open>\d\<close>, \<open>\s\<close>, \<open>\w\<close>.\<close>

definition isDigit :: "nat \<Rightarrow> bool" where
  "isDigit c = (48 \<le> c \<and> c \<le> 57)"

definition isSpace :: "nat \<Rightarrow> bool" where
  "isSpace c =
     ((9 \<le> c \<and> c \<le> 13) \<or> c = 32 \<or> c = 160 \<or> c = 5760 \<or> (8192 \<le> c \<and> c \<le> 8202)
      \<or> c = 8232 \<or> c = 8233 \<or> c = 8239 \<or> c = 8287 \<or> c = 12288 \<or> c = 65279)"

definition isWord :: "nat \<Rightarrow> bool" where
  "isWord c = ((48 \<le> c \<and> c \<le> 57) \<or> (65 \<le> c \<and> c \<le> 90) \<or> c = 95 \<or> (97 \<le> c \<and> c \<le> 122))"

text \<open>
  \<open>String.prototype.trim\<close> removes the same code units as \<open>\s\<close> matches, from both
  ends.
\<close>

definition trim :: "jsstring \<Rightarrow> jsstring" where
  "trim s = rev (dropWhile isSpace (rev (dropWhile isSpace s)))"

text \<open>\<open>s.includes(kw)\<close>: \<open>kw\<close> occurs in \<open>s\<close> as a contiguous substring.\<close>

fun str_includes :: "jsstring \<Rightarrow> jsstring \<Rightarrow> bool" where
  "str_includes [] kw = (kw = [])"
| "str_includes (c # cs) kw = (prefix kw (c # cs) \<or> str_includes cs kw)"

text \<open>\<open>keywords.some(kw => s.includes(kw))\<close>\<close>

definition some_included :: "jsstring list \<Rightarrow> jsstring \<Rightarrow> bool" where
  "some_included kws s = list_ex (\<lambda>kw. str_includes s kw) kws"

text \<open>\<open>s.split(',')\<close>: the pieces between the separators; at least one piece.\<close>

fun split_on :: "nat \<Rightarrow> jsstring \<Rightarrow> jsstring list" where
  "split_on sep [] = [[]]"
| "split_on sep (c # cs) =
     (if c = sep then [] # split_on sep cs
      else (case split_on sep cs of p # ps \<Rightarrow> (c # p) # ps | [] \<Rightarrow> [[c]]))"

text \<open>
  \<open>s.replace(',', '.')\<close> with a string pattern replaces the first occurrence only.
\<close>

fun replace_comma :: "jsstring \<Rightarrow> jsstring" where
  "replace_comma [] = []"
| "replace_comma (c # cs) = (if c = 44 then 46 # cs else c # replace_comma cs)"

text \<open>
  A JavaScript number is modelled by its value, a real, or \<open>NaN\<close>; the infinities are
  not modelled, and the two zeros are one. The parsers do no arithmetic on numbers except
  \<open>Math.abs\<close>, which is exact. \<open>parseFloat\<close> is modelled on unsigned decimal
  literals without exponent (digits, an optional point, digits), which is all a capture
  group of the program can hold: the value of the longest such prefix, and \<open>NaN\<close> when
  the string does not start with one. (The program's number is the double next to that
  value; the two have the same sign.)
\<close>

datatype number = NaN | Num real

definition digits_value :: "jsstring \<Rightarrow> nat" where
  "digits_value ds = foldl (\<lambda>a c. 10 * a + (c - 48)) 0 ds"

definition parseFloat :: "jsstring \<Rightarrow> number" where
  "parseFloat s =
     (let ip = takeWhile isDigit s; r = dropWhile isDigit s;
          fp = (case r of [] \<Rightarrow> [] | c # f \<Rightarrow> if c = 46 then takeWhile isDigit f else [])
      in if ip = [] \<and> fp = [] then NaN
         else Num (real (digits_value ip) + real (digits_value fp) / 10 ^ length fp))"

fun Math_abs :: "number \<Rightarrow> number" where
  "Math_abs NaN = NaN"
| "Math_abs (Num x) = Num \<bar>x\<bar>"

text \<open>\<open>x >= 0\<close> on numbers: false for \<open>NaN\<close>.\<close>

fun nonneg :: "number \<Rightarrow> bool" where
  "nonneg NaN = False"
| "nonneg (Num x) = (0 \<le> x)"

section \<open>The regular expressions\<close>

text \<open>
  \<open>text.match(re)\<close> without the \<open>g\<close> flag returns the leftmost match: the pattern is
  tried at position 0, then 1, and so on; \<open>search\<close> does that for a pattern given as a
  function that matches at the head of a string. \<open>search_b\<close> also hands the matcher the
  code unit before the position, which a leading \<open>\b\<close> needs.
\<close>

fun search :: "(jsstring \<Rightarrow> 'a option) \<Rightarrow> jsstring \<Rightarrow> 'a option" where
  "search f [] = f []"
| "search f (c # cs) = (case f (c # cs) of Some m \<Rightarrow> Some m | None \<Rightarrow> search f cs)"

fun search_b :: "(nat option \<Rightarrow> jsstring \<Rightarrow> 'a option) \<Rightarrow> nat option \<Rightarrow> jsstring \<Rightarrow> 'a option" where
  "search_b f p [] = f p []"
| "search_b f p (c # cs) =
     (case f p (c # cs) of Some m \<Rightarrow> Some m | None \<Rightarrow> search_b f (Some c) cs)"

text \<open>
  \<open>\d+(?:[.,]\d{1,2})?\<close> at the head of a string: the matched text and the rest. The
  quantifiers are greedy, and nothing that follows this group in any pattern of the
  program can fail, so the greedy choice is the match.
\<close>

definition decimal :: "jsstring \<Rightarrow> (jsstring \<times> jsstring) option" where
  "decimal s =
     (let ds = takeWhile isDigit s; r = dropWhile isDigit s
      in if ds = [] then None
         else (case r of
             p # d1 # r1 \<Rightarrow>
               if (p = 46 \<or> p = 44) \<and> isDigit d1
               then (case r1 of
                       d2 # r2 \<Rightarrow> if isDigit d2 then Some (ds @ [p, d1, d2], r2)
                                  else Some (ds @ [p, d1], r1)
                     | [] \<Rightarrow> Some (ds @ [p, d1], r1))
               else Some (ds, r)
           | _ \<Rightarrow> Some (ds, r)))"

text \<open>The class \<open>[$\<euro>\<pounds>]\<close> of the backend parser, and the class \<open>[+-]\<close>.\<close>

definition isCurrency :: "nat \<Rightarrow> bool" where
  "isCurrency c = (c = 36 \<or> c = 8364 \<or> c = 163)"

definition isSign :: "nat \<Rightarrow> bool" where
  "isSign c = (c = 43 \<or> c = 45)"

text \<open>An optional single code unit of a class, greedy: \<open>[...]?\<close>.\<close>

definition skip_opt :: "(nat \<Rightarrow> bool) \<Rightarrow> jsstring \<Rightarrow> jsstring" where
  "skip_opt P s = (case s of [] \<Rightarrow> [] | c # r \<Rightarrow> if P c then r else s)"

text \<open>
  A match is the list of its capture groups, \<open>match[1]\<close> first. The four amount
  patterns of the backend parser, each at the head of a string. In all of them the classes
  that follow each other are disjoint, so backtracking finds nothing that the greedy pass
  misses.
\<close>

type_synonym match = "jsstring list"

definition amountPattern1 :: "jsstring \<Rightarrow> match option" where
  \<comment> \<open>\<open>/([+-])\s*[$\<euro>\<pounds>]?\s*(\d+(?:[.,]\d{1,2})?)/\<close>\<close>
  "amountPattern1 s =
     (case s of [] \<Rightarrow> None
      | c # r \<Rightarrow>
          if isSign c
          then (case decimal (dropWhile isSpace (skip_opt isCurrency (dropWhile isSpace r))) of
                  Some (m, rest) \<Rightarrow> Some [[c], m]
                | None \<Rightarrow> None)
          else None)"

definition amountPattern2 :: "jsstring \<Rightarrow> match option" where
  \<comment> \<open>\<open>/[$\<euro>\<pounds>]\s*(\d+(?:[.,]\d{1,2})?)/\<close>\<close>
  "amountPattern2 s =
     (case s of [] \<Rightarrow> None
      | c # r \<Rightarrow>
          if isCurrency c
          then (case decimal (dropWhile isSpace r) of
                  Some (m, rest) \<Rightarrow> Some [m]
                | None \<Rightarrow> None)
          else None)"

definition amountPattern3 :: "jsstring \<Rightarrow> match option" where
  \<comment> \<open>\<open>/(\d+(?:[.,]\d{1,2})?)\s*[$\<euro>\<pounds>]?/\<close>\<close>
  "amountPattern3 s = (case decimal s of Some (m, rest) \<Rightarrow> Some [m] | None \<Rightarrow> None)"

definition amountPattern4 :: "jsstring \<Rightarrow> match option" where
  \<comment> \<open>\<open>/(\d+(?:[.,]\d{1,2})?)\s*(?:eur|usd|euro|dollar)?/i\<close>\<close>
  "amountPattern4 s = (case decimal s of Some (m, rest) \<Rightarrow> Some [m] | None \<Rightarrow> None)"

definition amountPatterns :: "(jsstring \<Rightarrow> match option) list" where
  "amountPatterns = [amountPattern1, amountPattern2, amountPattern3, amountPattern4]"

text \<open>\<open>match[i]\<close>, for \<open>i \<ge> 1\<close>: \<open>undefined\<close> (here \<open>None\<close>) beyond the groups.\<close>

definition group :: "match \<Rightarrow> nat \<Rightarrow> jsstring option" where
  "group m i = (if 1 \<le> i \<and> i \<le> length m then Some (m ! (i - 1)) else None)"

section \<open>The data model\<close>

text \<open>
  \<open>Category\<close> and \<open>ParsedTransaction\<close> of the backend (types.ts). Field names that clash
  with Isabelle or with each other carry a prefix: \<open>cid\<close>, \<open>cname\<close>, \<open>ctype\<close>, \<open>cgroup\<close>
  and \<open>ckeywords\<close> for a category's \<open>id\<close>, \<open>name\<close>, \<open>type\<close>, \<open>group\<close> and \<open>keywords\<close>,
  and \<open>txtype\<close> for a transaction's \<open>type\<close>. The presentation fields \<open>icon\<close> and
  \<open>color\<close>, which no code modelled here reads, are left out. An optional field is an
  \<open>option\<close>.
\<close>

datatype TxType = Income | Expense

record Category =
  cid :: jsstring
  cname :: jsstring
  ctype :: TxType
  cgroup :: jsstring
  ckeywords :: "jsstring list"

record ParsedTransaction =
  amount :: number
  txtype :: TxType
  category :: jsstring
  merchant :: "jsstring option"
  description :: jsstring
  date :: jsstring
  confidence :: real

definition mkCategory :: "string \<Rightarrow> string \<Rightarrow> TxType \<Rightarrow> string \<Rightarrow> string list \<Rightarrow> Category" where
  "mkCategory i n t g ks =
     \<lparr>cid = S i, cname = S n, ctype = t, cgroup = S g, ckeywords = map S ks\<rparr>"

definition DEFAULT_CATEGORIES :: "Category list" where
  "DEFAULT_CATEGORIES =
   [mkCategory ''gas'' ''Gas'' Expense ''transportation''
      [''gas'', ''fuel'', ''petrol'', ''diesel'', ''gasoline'', ''shell'', ''bp'', ''esso'', ''tank''],
    mkCategory ''transit'' ''Public Transit'' Expense ''transportation''
      [''bus'', ''train'', ''metro'', ''subway'', ''tram'', ''transit'', ''ticket''],
    mkCategory ''parking'' ''Parking'' Expense ''transportation'' [''parking'', ''park''],
    mkCategory ''uber'' ''Rideshare'' Expense ''transportation''
      [''uber'', ''lyft'', ''bolt'', ''taxi'', ''cab''],
    mkCategory ''car'' ''Car Maintenance'' Expense ''transportation''
      [''car wash'', ''oil change'', ''tire'', ''mechanic'', ''repair'', ''service''],
    mkCategory ''rent'' ''Rent/Mortgage'' Expense ''essential''
      [''rent'', ''mortgage'', ''lease'', ''housing''],
    mkCategory ''utilities'' ''Utilities'' Expense ''essential''
      [''electric'', ''electricity'', ''water'', ''utility'', ''internet'', ''phone'', ''bill''],
    mkCategory ''groceries'' ''Groceries'' Expense ''essential''
      [''grocery'', ''groceries'', ''supermarket'', ''lidl'', ''aldi'', ''tesco'', ''kaufland'',
       ''billa'', ''whole foods''],
    mkCategory ''healthcare'' ''Healthcare'' Expense ''essential''
      [''doctor'', ''pharmacy'', ''medicine'', ''hospital'', ''dental'', ''dentist'', ''health''],
    mkCategory ''insurance'' ''Insurance'' Expense ''essential'' [''insurance''],
    mkCategory ''dining'' ''Dining Out'' Expense ''lifestyle''
      [''restaurant'', ''lunch'', ''dinner'', ''breakfast'', ''coffee'', ''cafe'', ''starbucks'',
       ''mcdonald'', ''pizza'', ''burger'', ''food'', ''eat''],
    mkCategory ''entertainment'' ''Entertainment'' Expense ''lifestyle''
      [''movie'', ''netflix'', ''spotify'', ''game'', ''concert'', ''tickets'', ''cinema'',
       ''theater'', ''bar'', ''club''],
    mkCategory ''shopping'' ''Shopping'' Expense ''lifestyle''
      [''amazon'', ''shopping'', ''clothes'', ''target'', ''walmart'', ''ebay'', ''ikea'', ''zara''],
    mkCategory ''subscriptions'' ''Subscriptions'' Expense ''lifestyle''
      [''subscription'', ''membership'', ''premium'', ''plan'', ''netflix'', ''spotify''],
    mkCategory ''salary'' ''Salary'' Income ''income''
      [''salary'', ''paycheck'', ''wage'', ''income'', ''pay''],
    mkCategory ''freelance'' ''Freelance'' Income ''income''
      [''freelance'', ''client'', ''project'', ''invoice'', ''gig''],
    mkCategory ''investments'' ''Investments'' Income ''income''
      [''invest'', ''dividend'', ''stock'', ''crypto'', ''trading'', ''interest''],
    mkCategory ''gifts'' ''Gifts'' Income ''income''
      [''gift'', ''present'', ''birthday'', ''received''],
    mkCategory ''refund'' ''Refund'' Income ''income''
      [''refund'', ''return'', ''cashback'', ''reimbursement''],
    mkCategory ''other-expense'' ''Other'' Expense ''other'' [],
    mkCategory ''other-income'' ''Other Income'' Income ''other'' []]"

text \<open>
  What the JavaScript host gives the parsers.

  \<^item> \<open>String.prototype.toLowerCase\<close> and \<open>toUpperCase\<close>. They follow the Unicode case
    tables of the host (a letter may change into several code units, and the tables grow
    with the Unicode version), which are not modelled: the two functions are parameters,
    and nothing is assumed about them.
  \<^item> What \<open>new Date()\<close> gives: the ISO date of the call, of the day before and of seven
    days before (\<open>toISOString().split('T')[0]\<close> after \<open>setDate\<close>). Calendar arithmetic
    is the host's and is not modelled.
\<close>

record Host =
  toLowerCase :: "jsstring \<Rightarrow> jsstring"
  toUpperCase :: "jsstring \<Rightarrow> jsstring"
  today :: jsstring
  yesterday :: jsstring
  lastWeek :: jsstring

text \<open>
  An exception of the source language: a \<open>TypeError\<close>, or any other exception, with its
  message.
\<close>

datatype error = TypeError | Thrown jsstring

text \<open>
  \<open>a || b\<close> on strings that may be \<open>undefined\<close>: \<open>a\<close> when it is defined and not
  empty, else \<open>b\<close>.
\<close>

definition js_or :: "jsstring option \<Rightarrow> jsstring option \<Rightarrow> jsstring option" where
  "js_or a b = (case a of Some x \<Rightarrow> if x = [] then b else a | None \<Rightarrow> b)"

definition or_else :: "jsstring option \<Rightarrow> jsstring \<Rightarrow> jsstring" where
  "or_else a d = (case a of Some x \<Rightarrow> if x = [] then d else x | None \<Rightarrow> d)"

section \<open>The backend parser (parser.ts)\<close>

subsection \<open>Amount and explicit sign\<close>

text \<open>
  The loop over \<open>amountPatterns\<close>: the first pattern that matches anywhere in the text
  decides, and the loop breaks. \<open>match[2].replace\<close> would throw on an undefined group.
\<close>

fun amountLoop :: "(jsstring \<Rightarrow> match option) list \<Rightarrow> jsstring \<Rightarrow> error + (number \<times> jsstring option)" where
  "amountLoop [] text = Inr (Num 0, None)"
| "amountLoop (p # ps) text =
     (case search p text of
        Some m \<Rightarrow>
          if group m 1 = Some [43] \<or> group m 1 = Some [45]
          then (case group m 2 of
                  Some d \<Rightarrow> Inr (parseFloat (replace_comma d), group m 1)
                | None \<Rightarrow> Inl TypeError)
          else Inr (parseFloat (replace_comma (or_else (js_or (group m 1) (group m 2)) [48])), None)
      | None \<Rightarrow> amountLoop ps text)"

subsection \<open>Direction\<close>

definition incomeKeywords :: "jsstring list" where
  "incomeKeywords = map S [''salary'', ''paycheck'', ''income'', ''received'', ''got paid'',
     ''earned'', ''bonus'', ''refund'', ''dividend'', ''gift from'', ''sent me'']"

definition classifyType :: "jsstring option \<Rightarrow> jsstring \<Rightarrow> TxType" where
  "classifyType explicitSign lowerText =
     (if explicitSign = Some [43] then Income
      else if explicitSign = Some [45] then Expense
      else if some_included incomeKeywords lowerText then Income
      else Expense)"

subsection \<open>Date\<close>

text \<open>
  A word of lower-case ASCII letters and spaces under the \<open>i\<close> flag, at the head of a
  string (the rest is returned), and the same between two \<open>\b\<close>. Without the \<open>u\<close>
  flag only the ASCII letter of the other case matches a letter of the pattern.
\<close>

definition ci_eq :: "nat \<Rightarrow> nat \<Rightarrow> bool" where
  "ci_eq c p = (c = p \<or> (97 \<le> p \<and> p \<le> 122 \<and> c + 32 = p))"

fun ci_prefix :: "jsstring \<Rightarrow> jsstring \<Rightarrow> jsstring option" where
  "ci_prefix [] s = Some s"
| "ci_prefix (p # ps) [] = None"
| "ci_prefix (p # ps) (c # cs) = (if ci_eq c p then ci_prefix ps cs else None)"

definition bword :: "jsstring \<Rightarrow> nat option \<Rightarrow> jsstring \<Rightarrow> jsstring option" where
  "bword w p s =
     (if (case p of None \<Rightarrow> True | Some c \<Rightarrow> \<not> isWord c)
      then (case ci_prefix w s of
              Some rest \<Rightarrow>
                (case rest of [] \<Rightarrow> Some rest | c # r \<Rightarrow> if isWord c then None else Some rest)
            | None \<Rightarrow> None)
      else None)"

definition test_bword :: "jsstring \<Rightarrow> jsstring \<Rightarrow> bool" where
  "test_bword w s = (search_b (bword w) None s \<noteq> None)"

definition resolveDate :: "Host \<Rightarrow> jsstring \<Rightarrow> jsstring" where
  "resolveDate host lowerText =
     (if test_bword (S ''yesterday'') lowerText then yesterday host
      else if test_bword (S ''last week'') lowerText then lastWeek host
      else today host)"

subsection \<open>Category\<close>

text \<open>
  The two nested loops: categories of the type in catalog order, keywords in their order;
  the first keyword that the text includes ends both loops.
\<close>

fun matchCategory :: "Category list \<Rightarrow> jsstring \<Rightarrow> Category option" where
  "matchCategory [] lowerText = None"
| "matchCategory (cat # cats) lowerText =
     (case find (\<lambda>keyword. str_includes lowerText keyword) (ckeywords cat) of
        Some keyword \<Rightarrow> Some cat
      | None \<Rightarrow> matchCategory cats lowerText)"

definition categoriesForType :: "TxType \<Rightarrow> Category list" where
  "categoriesForType t = filter (\<lambda>c. ctype c = t) DEFAULT_CATEGORIES"

definition fallbackCategory :: "TxType \<Rightarrow> Category option" where
  "fallbackCategory t =
     find (\<lambda>c. cid c = (if t = Income then S ''other-income'' else S ''other-expense''))
       DEFAULT_CATEGORIES"

subsection \<open>Merchant\<close>

text \<open>
  \<open>/@\s*([^,]+)/i\<close> at the head of a string: the capture and the rest. When nothing but
  a comma or the end follows the white space, the regular expression backtracks and the
  capture is the last white-space unit.
\<close>

definition atSign :: "jsstring \<Rightarrow> (jsstring \<times> jsstring) option" where
  "atSign s =
     (case s of [] \<Rightarrow> None
      | c # r \<Rightarrow>
          if c = 64
          then (let sp = takeWhile isSpace r; r1 = dropWhile isSpace r;
                    body = takeWhile (\<lambda>x. x \<noteq> 44) r1
                in if body \<noteq> [] then Some (body, dropWhile (\<lambda>x. x \<noteq> 44) r1)
                   else if sp \<noteq> [] then Some ([last sp], r1)
                   else None)
          else None)"

text \<open>
  \<open>/\bat\s+([^,]+)/i\<close> at the head of a string, given the code unit before it: the
  capture. \<open>\s+\<close> keeps at least one unit when it backtracks.
\<close>

definition atWord :: "nat option \<Rightarrow> jsstring \<Rightarrow> jsstring option" where
  "atWord p s =
     (if (case p of None \<Rightarrow> True | Some c \<Rightarrow> \<not> isWord c)
      then (case ci_prefix (S ''at'') s of
              None \<Rightarrow> None
            | Some r \<Rightarrow>
                (let sp = takeWhile isSpace r; r1 = dropWhile isSpace r;
                     body = takeWhile (\<lambda>x. x \<noteq> 44) r1
                 in if sp = [] then None
                    else if body \<noteq> [] then Some body
                    else if 2 \<le> length sp then Some [last sp]
                    else None))
      else None)"

definition extractMerchant :: "jsstring \<Rightarrow> jsstring option" where
  "extractMerchant text =
     (case (case search atSign text of
              Some (cap, rest) \<Rightarrow> Some cap
            | None \<Rightarrow> search_b atWord None text) of
        Some cap \<Rightarrow> Some (trim cap)
      | None \<Rightarrow>
          (let parts = map trim (split_on 44 text)
           in if 3 \<le> length parts then Some (parts ! 2) else None))"

subsection \<open>Description\<close>

text \<open>
  \<open>s.replace(re, '')\<close> with the \<open>g\<close> flag: from left to right, every match is removed
  and the scan goes on behind it. The matcher returns what is left behind its match. Every
  pattern of the program matches at least one code unit; a matcher that returned an empty
  match is treated as no match at that position, which is what removing the empty string
  does.
\<close>

function replace_all :: "(jsstring \<Rightarrow> jsstring option) \<Rightarrow> jsstring \<Rightarrow> jsstring" where
  "replace_all f [] = []"
| "replace_all f (c # cs) =
     (case f (c # cs) of
        Some rest \<Rightarrow>
          if length rest \<le> length cs then replace_all f rest else c # replace_all f cs
      | None \<Rightarrow> c # replace_all f cs)"
  by pat_completeness auto
termination
  by (relation "measure (\<lambda>(f, s). length s)") auto

function replace_all_b :: "(nat option \<Rightarrow> jsstring \<Rightarrow> jsstring option) \<Rightarrow> nat option \<Rightarrow> jsstring \<Rightarrow> jsstring" where
  "replace_all_b f p [] = []"
| "replace_all_b f p (c # cs) =
     (case f p (c # cs) of
        Some rest \<Rightarrow>
          if length rest \<le> length cs
          then replace_all_b f (Some ((c # cs) ! (length cs - length rest))) rest
          else c # replace_all_b f (Some c) cs
      | None \<Rightarrow> c # replace_all_b f (Some c) cs)"
  by pat_completeness auto
termination
  by (relation "measure (\<lambda>(f, p, s). length s)") auto

definition amountToken :: "jsstring \<Rightarrow> jsstring option" where
  \<comment> \<open>\<open>/[+-]?\s*[$\<euro>\<pounds>]?\s*\d+(?:[.,]\d{1,2})?\s*[$\<euro>\<pounds>]?/g\<close>\<close>
  "amountToken s =
     (case decimal (dropWhile isSpace (skip_opt isCurrency (dropWhile isSpace (skip_opt isSign s)))) of
        Some (m, rest) \<Rightarrow> Some (skip_opt isCurrency (dropWhile isSpace rest))
      | None \<Rightarrow> None)"

definition atToken :: "jsstring \<Rightarrow> jsstring option" where
  \<comment> \<open>\<open>/@\s*[^,]+/g\<close>\<close>
  "atToken s = (case atSign s of Some (cap, rest) \<Rightarrow> Some rest | None \<Rightarrow> None)"

definition dateWord :: "nat option \<Rightarrow> jsstring \<Rightarrow> jsstring option" where
  \<comment> \<open>\<open>/\b(yesterday|today|last week)\b/gi\<close>\<close>
  "dateWord p s =
     (case bword (S ''yesterday'') p s of
        Some r \<Rightarrow> Some r
      | None \<Rightarrow>
          (case bword (S ''today'') p s of
             Some r \<Rightarrow> Some r
           | None \<Rightarrow> bword (S ''last week'') p s))"

function collapseSpaces :: "jsstring \<Rightarrow> jsstring" where
  \<comment> \<open>\<open>.replace(/\s+/g, ' ')\<close>\<close>
  "collapseSpaces [] = []"
| "collapseSpaces (c # cs) =
     (if isSpace c then 32 # collapseSpaces (dropWhile isSpace cs) else c # collapseSpaces cs)"
  by pat_completeness auto
termination
  by (relation "measure length") (auto simp: length_dropWhile_le less_Suc_eq_le)

definition stripDescription :: "jsstring \<Rightarrow> jsstring" where
  "stripDescription text =
     trim (collapseSpaces (replace_all_b dateWord None (replace_all atToken (replace_all amountToken text))))"

text \<open>
  \<open>description.charAt(0).toUpperCase() + description.slice(1)\<close>; \<open>charAt(0)\<close> is the
  first code unit as a string, and the empty string when there is none.
\<close>

definition capitalize :: "Host \<Rightarrow> jsstring \<Rightarrow> jsstring" where
  "capitalize host d = toUpperCase host (take 1 d) @ drop 1 d"

subsection \<open>parseTransaction\<close>

definition parseTransaction :: "Host \<Rightarrow> jsstring \<Rightarrow> error + ParsedTransaction" where
  "parseTransaction host text =
     (let lowerText = trim (toLowerCase host text) in
      case amountLoop amountPatterns text of
        Inl e \<Rightarrow> Inl e
      | Inr (amt, explicitSign) \<Rightarrow>
          (let type = classifyType explicitSign lowerText;
               loopMatch = matchCategory (categoriesForType type) lowerText;
               conf = (case loopMatch of Some c \<Rightarrow> 0.85 | None \<Rightarrow> 0.5);
               matchedCategory = (case loopMatch of Some c \<Rightarrow> Some c | None \<Rightarrow> fallbackCategory type);
               stripped = stripDescription text;
               desc = (if length stripped < 2
                       then or_else (map_option cname matchedCategory) (S ''Transaction'')
                       else stripped)
           in Inr \<lparr>amount = Math_abs amt,
                   txtype = type,
                   category = or_else (map_option cname matchedCategory) (S ''Other''),
                   merchant = extractMerchant text,
                   description = capitalize host desc,
                   date = resolveDate host lowerText,
                   confidence = conf\<rparr>))"

section \<open>The desktop service (AIService)\<close>

subsection \<open>Its data and its collaborators\<close>

text \<open>
  The records of shared/types.ts, with the fields that the service reads: of a category its
  \<open>id\<close>, \<open>name\<close> and \<open>type\<close>; of a transaction its \<open>amount\<close>, \<open>type\<close> and
  \<open>categoryId\<close>; of an account its \<open>name\<close> and \<open>balance\<close>; of a budget its
  \<open>categoryId\<close> and \<open>amount\<close>. A field holds a value of the type that shared/types.ts
  declares, or \<open>null\<close> where the schema (database.ts) declares its column without
  \<open>NOT NULL\<close>: that is so for \<open>accounts.balance\<close> and \<open>transactions.category_id\<close>, and
  these two fields are options, \<open>None\<close> being \<open>null\<close>. Numbers are finite. The service builds
  \<open>ParsedTransaction\<close> objects with the same fields as the backend's, and only of the
  types income and expense.
\<close>

record DbCategory =
  dbid :: jsstring
  dbname :: jsstring
  dbtype :: TxType

datatype TransactionType = income | expense | transfer

record Transaction =
  t_amount :: real
  t_type :: TransactionType
  t_categoryId :: "jsstring option"

record Account =
  a_name :: jsstring
  a_balance :: "real option"

record Budget =
  b_categoryId :: jsstring
  b_amount :: real

record TransactionFilters =
  startDate :: jsstring
  endDate :: jsstring
  f_type :: "TransactionType option"
  limit :: "nat option"

text \<open>The object that \<open>generateObject\<close> returns when it succeeds: \<open>TransactionSchema\<close>.\<close>

record ModelObject =
  o_amount :: real
  o_type :: TxType
  o_category :: jsstring
  o_merchant :: "jsstring option"
  o_description :: jsstring
  o_date :: jsstring
  o_confidence :: real

text \<open>
  What the service sees of the world during one call, beside what the host gives every
  program.

  \<^item> The rows that the methods of \<open>Database\<close> return. The calls into the SQLite library
    are taken to return, so \<open>getCategories\<close>, \<open>getAccounts\<close> and \<open>getBudgets\<close>, which
    hand on the rows as they are, are lists. \<open>getTransactions\<close> parses the stored tags of
    every row with \<open>JSON.parse\<close>, which throws on a malformed text: it returns the rows or
    throws. The service writes neither the catalog nor the ledger, and they are taken as
    unchanged while a call runs.
  \<^item> \<open>startOfMonth\<close> and \<open>endOfMonth\<close>, the two dates that \<open>processQuery\<close> derives
    from \<open>new Date()\<close>.
  \<^item> The two calls of the AI SDK as functions from the prompt to what the call returns or
    throws (the configured model is part of that function).
  \<^item> The arithmetic of numbers: every sum, difference, product and quotient of the
    program is the exact result rounded to a double, and \<open>fl\<close> is that rounding
    (results stay in the finite range). \<open>Number.prototype.toFixed\<close> is a built-in whose
    digits are not modelled. Nothing is assumed about either.
\<close>

record Env = Host +
  getCategories :: "DbCategory list"
  getTransactions :: "TransactionFilters \<Rightarrow> error + Transaction list"
  getAccounts :: "Account list"
  getBudgets :: "Budget list"
  startOfMonth :: jsstring
  endOfMonth :: jsstring
  generateObject :: "jsstring \<Rightarrow> error + ModelObject"
  generateText :: "jsstring \<Rightarrow> error + jsstring"
  fl :: "real \<Rightarrow> real"
  toFixed :: "nat \<Rightarrow> real \<Rightarrow> jsstring"

text \<open>
  The calls that a run makes, in order: the log against which "no call", "one call" and
  "no recomputation" are stated.
\<close>

datatype call =
  GenerateObject jsstring
| GenerateText jsstring
| HandleLocalQuery jsstring
| BuildFinancialContext

subsection \<open>parseWithRules\<close>

text \<open>
  The currency class of the amount pattern, with the six code units that the source file
  spells between the brackets.
\<close>

definition isCurrencyAI :: "nat \<Rightarrow> bool" where
  "isCurrencyAI c = (c = 36 \<or> c = 226 \<or> c = 8218 \<or> c = 172 \<or> c = 194 \<or> c = 163)"

definition amountMatchAI :: "jsstring \<Rightarrow> match option" where
  \<comment> \<open>\<open>/[$...]?\s*(\d+(?:[.,]\d{1,2})?)/\<close>\<close>
  "amountMatchAI s =
     (case decimal (dropWhile isSpace (skip_opt isCurrencyAI s)) of
        Some (m, rest) \<Rightarrow> Some [m]
      | None \<Rightarrow> None)"

definition amountAI :: "jsstring \<Rightarrow> error + number" where
  "amountAI text =
     (case search amountMatchAI text of
        Some m \<Rightarrow>
          (case group m 1 of
             Some d \<Rightarrow> Inr (parseFloat (replace_comma d))
           | None \<Rightarrow> Inl TypeError)
      | None \<Rightarrow> Inr (Num 0))"

definition incomeKeywordsAI :: "jsstring list" where
  "incomeKeywordsAI = map S [''salary'', ''paycheck'', ''income'', ''received'', ''got paid'',
     ''earned'', ''bonus'', ''refund'', ''dividend'']"

definition expenseKeywordsAI :: "jsstring list" where
  "expenseKeywordsAI = map S [''spent'', ''paid'', ''bought'', ''cost'', ''purchase'', ''bill'',
     ''expense'']"

definition typeAI :: "jsstring \<Rightarrow> TxType" where
  "typeAI lowerText =
     (if some_included incomeKeywordsAI lowerText then Income
      else if some_included expenseKeywordsAI lowerText then Expense
      else Expense)"

definition categoryKeywords :: "(jsstring \<times> jsstring list) list" where
  "categoryKeywords = map (\<lambda>(c, ks). (S c, map S ks))
    [(''Groceries'', [''grocery'', ''groceries'', ''supermarket'', ''food'', ''whole foods'',
        ''trader'', ''aldi'', ''lidl'']),
     (''Dining Out'', [''restaurant'', ''lunch'', ''dinner'', ''coffee'', ''cafe'', ''starbucks'',
        ''mcdonald'']),
     (''Transportation'', [''uber'', ''lyft'', ''taxi'', ''gas'', ''fuel'', ''parking'', ''transit'',
        ''metro'', ''bus'']),
     (''Rent/Mortgage'', [''rent'', ''mortgage'', ''lease'']),
     (''Utilities'', [''electric'', ''water'', ''gas bill'', ''utility'', ''internet'', ''phone'']),
     (''Entertainment'', [''movie'', ''netflix'', ''spotify'', ''game'', ''concert'', ''tickets'']),
     (''Shopping'', [''amazon'', ''shopping'', ''clothes'', ''target'', ''walmart'', ''ebay'']),
     (''Healthcare'', [''doctor'', ''pharmacy'', ''medicine'', ''hospital'', ''dental'']),
     (''Salary'', [''salary'', ''paycheck'', ''got paid'', ''wage'']),
     (''Freelance'', [''freelance'', ''client'', ''project'', ''invoice''])]"

text \<open>The type-specific fallback name: \<open>type === 'income' ? 'Other Income' : 'Other'\<close>.\<close>

definition fallbackName :: "TxType \<Rightarrow> jsstring" where
  "fallbackName t = (if t = Income then S ''Other Income'' else S ''Other'')"

text \<open>
  The \<open>for ... of Object.entries(categoryKeywords)\<close> loop with its \<open>break\<close>: the
  category and the confidence it leaves behind.
\<close>

definition detectCategory :: "TxType \<Rightarrow> jsstring \<Rightarrow> jsstring \<times> real" where
  "detectCategory t lowerText =
     (case find (\<lambda>(cat, kws). some_included kws lowerText) categoryKeywords of
        Some (cat, kws) \<Rightarrow> (cat, 0.8)
      | None \<Rightarrow> (fallbackName t, 0.5))"

text \<open>
  \<open>/at\s+([A-Z][a-zA-Z\s]+)/i\<close> and \<open>/from\s+([A-Z][a-zA-Z\s]+)/i\<close> at the head of a
  string. Under the \<open>i\<close> flag \<open>[A-Z]\<close> is any ASCII letter.
\<close>

definition isLetter :: "nat \<Rightarrow> bool" where
  "isLetter c = ((65 \<le> c \<and> c \<le> 90) \<or> (97 \<le> c \<and> c \<le> 122))"

definition merchantPattern :: "jsstring \<Rightarrow> jsstring \<Rightarrow> match option" where
  "merchantPattern w s =
     (case ci_prefix w s of
        None \<Rightarrow> None
      | Some r \<Rightarrow>
          (if takeWhile isSpace r = [] then None
           else (case dropWhile isSpace r of
                   [] \<Rightarrow> None
                 | l # r2 \<Rightarrow>
                     if isLetter l \<and> takeWhile (\<lambda>c. isLetter c \<or> isSpace c) r2 \<noteq> []
                     then Some [l # takeWhile (\<lambda>c. isLetter c \<or> isSpace c) r2]
                     else None)))"

definition merchantPatterns :: "(jsstring \<Rightarrow> match option) list" where
  "merchantPatterns = [merchantPattern (S ''at''), merchantPattern (S ''from'')]"

fun merchantLoop :: "(jsstring \<Rightarrow> match option) list \<Rightarrow> jsstring \<Rightarrow> error + jsstring option" where
  "merchantLoop [] text = Inr None"
| "merchantLoop (p # ps) text =
     (case search p text of
        Some m \<Rightarrow> (case group m 1 of Some cap \<Rightarrow> Inr (Some (trim cap)) | None \<Rightarrow> Inl TypeError)
      | None \<Rightarrow> merchantLoop ps text)"

definition parseWithRules :: "Env \<Rightarrow> jsstring \<Rightarrow> error + ParsedTransaction" where
  "parseWithRules env text =
     (let lowerText = toLowerCase env text; categories = getCategories env in
      case amountAI text of
        Inl e \<Rightarrow> Inl e
      | Inr amt \<Rightarrow>
          (let type = typeAI lowerText;
               dt = (if str_includes lowerText (S ''yesterday'') then yesterday env
                     else today env);
               cc = detectCategory type lowerText;
               matchedCategory =
                 find (\<lambda>c. toLowerCase env (dbname c) = toLowerCase env (fst cc) \<and> dbtype c = type)
                   categories
           in case merchantLoop merchantPatterns text of
                Inl e \<Rightarrow> Inl e
              | Inr m \<Rightarrow>
                  Inr \<lparr>amount = amt,
                       txtype = type,
                       category = or_else (map_option dbname matchedCategory) (fst cc),
                       merchant = m,
                       description = text,
                       date = dt,
                       confidence = snd cc\<rparr>))"

subsection \<open>validateAndEnrich\<close>

definition isoDate :: "jsstring \<Rightarrow> bool" where
  \<comment> \<open>\<open>/^\d{4}-\d{2}-\d{2}$/\<close>\<close>
  "isoDate d =
     (case d of
        [y1, y2, y3, y4, h1, m1, m2, h2, d1, d2] \<Rightarrow>
          isDigit y1 \<and> isDigit y2 \<and> isDigit y3 \<and> isDigit y4 \<and> h1 = 45 \<and> isDigit m1 \<and> isDigit m2
          \<and> h2 = 45 \<and> isDigit d1 \<and> isDigit d2
      | _ \<Rightarrow> False)"

definition validateAndEnrich :: "Env \<Rightarrow> ParsedTransaction \<Rightarrow> ParsedTransaction" where
  "validateAndEnrich env parsed =
     (let categories = getCategories env;
          matchedCategory =
            find (\<lambda>c. toLowerCase env (dbname c) = toLowerCase env (category parsed)) categories;
          cat = (case matchedCategory of
                   None \<Rightarrow>
                     (let fuzzyMatch =
                            find (\<lambda>c. str_includes (toLowerCase env (dbname c))
                                        (toLowerCase env (category parsed)))
                              categories
                      in or_else (map_option dbname fuzzyMatch) (fallbackName (txtype parsed)))
                 | Some c \<Rightarrow> dbname c)
      in parsed\<lparr>category := cat,
                amount := Math_abs (amount parsed),
                date := (if date parsed = [] \<or> \<not> isoDate (date parsed) then today env
                         else date parsed),
                confidence :=
                  max 0 (min 1 (if confidence parsed = 0 then 0.5 else confidence parsed))\<rparr>)"

subsection \<open>parseTransaction\<close>

text \<open>\<open>xs.join(sep)\<close>\<close>

fun join :: "jsstring \<Rightarrow> jsstring list \<Rightarrow> jsstring" where
  "join sep [] = []"
| "join sep [x] = x"
| "join sep (x # y # ys) = x @ sep @ join sep (y # ys)"

definition categoryList :: "Env \<Rightarrow> jsstring" where
  "categoryList env = join (S '', '') (take 15 (map dbname (getCategories env)))"

definition parsePrompt :: "Env \<Rightarrow> jsstring \<Rightarrow> jsstring" where
  "parsePrompt env text =
     S ''Parse this financial transaction: '' @ [34] @ text @ [34, 10]
     @ S ''Available categories: '' @ categoryList env @ [10]
     @ S ''Today's date: '' @ today env @ [10]
     @ S ''Return structured data.''"

text \<open>\<open>parsed.merchant || undefined\<close>: \<open>null\<close> and the empty string become \<open>undefined\<close>.\<close>

definition fromModel :: "ModelObject \<Rightarrow> ParsedTransaction" where
  "fromModel obj =
     \<lparr>amount = Num (o_amount obj),
      txtype = o_type obj,
      category = o_category obj,
      merchant = (case o_merchant obj of Some m \<Rightarrow> if m = [] then None else Some m | None \<Rightarrow> None),
      description = o_description obj,
      date = o_date obj,
      confidence = o_confidence obj\<rparr>"

text \<open>
  The pipeline: the result (or the exception that leaves the method) and the calls made.
  An exception inside the \<open>try\<close> block is caught and logged, and the rule-based result
  is returned.
\<close>

definition AIService_parseTransaction :: "Env \<Rightarrow> jsstring \<Rightarrow> error + (ParsedTransaction \<times> call list)" where
  "AIService_parseTransaction env text =
     (case parseWithRules env text of
        Inl e \<Rightarrow> Inl e
      | Inr rulesBased \<Rightarrow>
          if confidence rulesBased \<ge> 0.75 then Inr (rulesBased, [])
          else (case generateObject env (parsePrompt env text) of
                  Inr obj \<Rightarrow>
                    Inr (validateAndEnrich env (fromModel obj), [GenerateObject (parsePrompt env text)])
                | Inl e \<Rightarrow> Inr (rulesBased, [GenerateObject (parsePrompt env text)])))"

subsection \<open>handleLocalQuery\<close>

text \<open>
  The non-ASCII marks of the templates, with the code units that the source file spells:
  the currency mark and the pictographs.
\<close>

definition EUR :: jsstring where "EUR = [226, 8218, 172]"
definition RED :: jsstring where "RED = [240, 376, 8221, 180]"
definition YELLOW :: jsstring where "YELLOW = [240, 376, 376, 161]"
definition GREEN :: jsstring where "GREEN = [240, 376, 376, 162]"
definition CHART :: jsstring where "CHART = [240, 376, 8220, 352]"
definition MONEYBAG :: jsstring where "MONEYBAG = [240, 376, 8217, 176]"
definition MONEYWINGS :: jsstring where "MONEYWINGS = [240, 376, 8217, 184]"
definition CHECKMARK :: jsstring where "CHECKMARK = [226, 339, 8230]"
definition WARNING :: jsstring where "WARNING = [226, 353, 160, 239, 184]"
definition BANK :: jsstring where "BANK = [240, 376, 166]"

text \<open>
  A natural number and an integer as a template prints them (below \<open>10^21\<close>, where
  JavaScript switches to exponent notation).
\<close>

fun showNat :: "nat \<Rightarrow> jsstring" where
  "showNat n = (if n < 10 then [48 + n] else showNat (n div 10) @ [48 + n mod 10])"

declare showNat.simps [simp del]

definition showInt :: "int \<Rightarrow> jsstring" where
  "showInt i = (if i < 0 then 45 # showNat (nat (- i)) else showNat (nat i))"

text \<open>\<open>ts.reduce((sum, t) => sum + Math.abs(t.amount), 0)\<close>\<close>

definition sumAbs :: "Env \<Rightarrow> Transaction list \<Rightarrow> real" where
  "sumAbs env ts = foldl (\<lambda>sum t. fl env (sum + \<bar>t_amount t\<bar>)) 0 ts"

text \<open>
  \<open>accounts.reduce((sum, a) => sum + a.balance, 0)\<close>: in a sum \<open>null\<close> counts as zero.
\<close>

definition sumBalance :: "Env \<Rightarrow> Account list \<Rightarrow> real" where
  "sumBalance env accounts =
     foldl (\<lambda>sum a. fl env (sum + (case a_balance a of Some b \<Rightarrow> b | None \<Rightarrow> 0))) 0 accounts"

text \<open>
  \<open>new Map(categories.map(c => [c.id, c])).get(id)\<close>: of two categories with one id
  the later one stays. The program gives every category a string as its id, so the key
  \<open>null\<close> finds nothing.
\<close>

definition categoryMapGet :: "DbCategory list \<Rightarrow> jsstring option \<Rightarrow> DbCategory option" where
  "categoryMapGet categories i = find (\<lambda>c. Some (dbid c) = i) (rev categories)"

text \<open>
  The \<open>Map\<close> of spending per category: \<open>set\<close> keeps the place of a key that is already
  there, and appends a new one. \<open>spending.get(id) || 0\<close> is the stored number, or zero.
\<close>

fun mapSet :: "('k \<times> real) list \<Rightarrow> 'k \<Rightarrow> real \<Rightarrow> ('k \<times> real) list" where
  "mapSet [] k v = [(k, v)]"
| "mapSet ((k', v') # m) k v = (if k' = k then (k, v) # m else (k', v') # mapSet m k v)"

definition mapGetOr0 :: "('k \<times> real) list \<Rightarrow> 'k \<Rightarrow> real" where
  "mapGetOr0 m k = (case map_of m k of Some v \<Rightarrow> if v = 0 then 0 else v | None \<Rightarrow> 0)"

definition spendingByCategory :: "Env \<Rightarrow> Transaction list \<Rightarrow> (jsstring option \<times> real) list" where
  "spendingByCategory env ts =
     foldl (\<lambda>m t. mapSet m (t_categoryId t)
                    (fl env (mapGetOr0 m (t_categoryId t) + \<bar>t_amount t\<bar>))) [] ts"

text \<open>
  \<open>.sort((a, b) => b[1] - a[1]).slice(0, 5)\<close>; the sort is stable, and a difference of
  two doubles has the sign of the exact difference.
\<close>

definition top5 :: "('k \<times> real) list \<Rightarrow> ('k \<times> real) list" where
  "top5 m = take 5 (sort_key (\<lambda>(k, v). - v) m)"

text \<open>
  \<open>Math.round((spent / amount) * 100)\<close> in a template: the division by zero gives
  \<open>Infinity\<close> or \<open>NaN\<close>, and \<open>Math.round\<close> rounds a half upwards.
\<close>

definition pctText :: "Env \<Rightarrow> real \<Rightarrow> real \<Rightarrow> jsstring" where
  "pctText env spent amt =
     (if amt = 0
      then (if spent = 0 then S ''NaN'' else if spent > 0 then S ''Infinity'' else S ''-Infinity'')
      else showInt \<lfloor>fl env (fl env (spent / amt) * 100) + 1 / 2\<rfloor>)"

definition expenseFilter :: "Env \<Rightarrow> TransactionFilters" where
  "expenseFilter env =
     \<lparr>startDate = startOfMonth env, endDate = endOfMonth env, f_type = Some expense, limit = None\<rparr>"

definition incomeFilter :: "Env \<Rightarrow> TransactionFilters" where
  "incomeFilter env =
     \<lparr>startDate = startOfMonth env, endDate = endOfMonth env, f_type = Some income, limit = None\<rparr>"

definition monthFilter :: "Env \<Rightarrow> TransactionFilters" where
  "monthFilter env =
     \<lparr>startDate = startOfMonth env, endDate = endOfMonth env, f_type = None, limit = None\<rparr>"

definition topSpendingLines :: "Env \<Rightarrow> (jsstring option \<times> real) list \<Rightarrow> jsstring list" where
  "topSpendingLines env ranked =
     map (\<lambda>(i, (catId, amt)).
            showNat (i + 1) @ S ''. ''
            @ or_else (map_option dbname (categoryMapGet (getCategories env) catId)) (S ''Unknown'')
            @ S '': '' @ EUR @ toFixed env 2 amt)
       (zip [0 ..< length ranked] ranked)"

text \<open>
  The six answers. Each returns its text or throws what a read of the transactions has
  thrown; the balance answer also throws a \<open>TypeError\<close>, see below.
\<close>

definition spendingAnswer :: "Env \<Rightarrow> jsstring \<Rightarrow> error + jsstring" where
  "spendingAnswer env query =
     (case getTransactions env (expenseFilter env) of
        Inl e \<Rightarrow> Inl e
      | Inr transactions \<Rightarrow>
          (let total = sumAbs env transactions
           in if str_includes query (S ''category'') \<or> str_includes query (S ''where'')
                 \<or> str_includes query (S ''top'') \<or> str_includes query (S ''most'')
              then (let ranked = top5 (spendingByCategory env transactions)
                    in if length ranked = 0 then Inr (S ''No expenses recorded this month.'')
                       else Inr (S ''Top spending this month:'' @ [10]
                                 @ join [10] (topSpendingLines env ranked)
                                 @ [10, 10] @ S ''Total: '' @ EUR @ toFixed env 2 total))
              else Inr (S ''You've spent '' @ EUR @ toFixed env 2 total @ S '' this month.'')))"

definition incomeAnswer :: "Env \<Rightarrow> error + jsstring" where
  "incomeAnswer env =
     (case getTransactions env (incomeFilter env) of
        Inl e \<Rightarrow> Inl e
      | Inr transactions \<Rightarrow>
          Inr (S ''Your income this month: '' @ EUR @ toFixed env 2 (sumAbs env transactions)))"

text \<open>
  \<open>accounts.map(a => `${a.name}: ...${a.balance.toFixed(2)}`)\<close>: the method call on a
  balance that is \<open>null\<close> throws a \<open>TypeError\<close>, at the first such account.
\<close>

fun balanceLines :: "Env \<Rightarrow> Account list \<Rightarrow> error + jsstring list" where
  "balanceLines env [] = Inr []"
| "balanceLines env (a # accounts) =
     (case a_balance a of
        None \<Rightarrow> Inl TypeError
      | Some b \<Rightarrow>
          (case balanceLines env accounts of
             Inl e \<Rightarrow> Inl e
           | Inr ls \<Rightarrow> Inr ((a_name a @ S '': '' @ EUR @ toFixed env 2 b) # ls)))"

definition balanceAnswer :: "Env \<Rightarrow> error + jsstring" where
  "balanceAnswer env =
     (let accounts = getAccounts env;
          total = sumBalance env accounts
      in case balanceLines env accounts of
           Inl e \<Rightarrow> Inl e
         | Inr ls \<Rightarrow>
             Inr (S ''Total balance: '' @ EUR @ toFixed env 2 total @ [10, 10] @ join [10] ls))"

text \<open>
  One line of the budget status. \<open>0.8\<close> in the program is the double next to it.
\<close>

definition budgetLine :: "Env \<Rightarrow> Transaction list \<Rightarrow> Budget \<Rightarrow> jsstring" where
  "budgetLine env transactions b =
     (let spent = sumAbs env (filter (\<lambda>t. t_categoryId t = Some (b_categoryId b)) transactions);
          cat = categoryMapGet (getCategories env) (Some (b_categoryId b));
          emoji = (if spent > b_amount b then RED
                   else if spent > fl env (b_amount b * fl env 0.8) then YELLOW else GREEN)
      in emoji @ [32]
         @ (case cat of Some c \<Rightarrow> dbname c | None \<Rightarrow> S ''undefined'')
         @ S '': '' @ EUR @ toFixed env 2 spent @ S '' / '' @ EUR @ toFixed env 2 (b_amount b)
         @ S '' ('' @ pctText env spent (b_amount b) @ S ''%)'')"

text \<open>The transactions are read before the budgets are counted.\<close>

definition budgetAnswer :: "Env \<Rightarrow> error + jsstring" where
  "budgetAnswer env =
     (let budgets = getBudgets env
      in case getTransactions env (expenseFilter env) of
           Inl e \<Rightarrow> Inl e
         | Inr transactions \<Rightarrow>
             if length budgets = 0 then Inr (S ''You haven't set up any budgets yet.'')
             else Inr (S ''Budget Status:'' @ [10]
                       @ join [10] (map (budgetLine env transactions) budgets)))"

definition incomeOf :: "Env \<Rightarrow> Transaction list \<Rightarrow> real" where
  "incomeOf env ts = sumAbs env (filter (\<lambda>t. t_type t = income) ts)"

definition expensesOf :: "Env \<Rightarrow> Transaction list \<Rightarrow> real" where
  "expensesOf env ts = sumAbs env (filter (\<lambda>t. t_type t = expense) ts)"

definition savingsAnswer :: "Env \<Rightarrow> error + jsstring" where
  "savingsAnswer env =
     (case getTransactions env (monthFilter env) of
        Inl e \<Rightarrow> Inl e
      | Inr transactions \<Rightarrow>
          (let inc = incomeOf env transactions;
               net = fl env (inc - expensesOf env transactions);
               rate = (if inc > 0 then fl env (fl env (net / inc) * 100) else 0)
           in if net \<ge> 0
              then Inr (S ''You've saved '' @ EUR @ toFixed env 2 net @ S '' this month (''
                        @ toFixed env 1 rate @ S ''% savings rate).'')
              else Inr (S ''You're spending '' @ EUR @ toFixed env 2 \<bar>net\<bar>
                        @ S '' more than you earn this month.'')))"

definition summaryAnswer :: "Env \<Rightarrow> error + jsstring" where
  "summaryAnswer env =
     (case getTransactions env (monthFilter env) of
        Inl e \<Rightarrow> Inl e
      | Inr transactions \<Rightarrow>
          (let inc = incomeOf env transactions;
               expenses = expensesOf env transactions;
               net = fl env (inc - expenses);
               balance = sumBalance env (getAccounts env)
           in Inr (CHART @ S '' Monthly Summary:'' @ [10]
                   @ MONEYBAG @ S '' Income: '' @ EUR @ toFixed env 2 inc @ [10]
                   @ MONEYWINGS @ S '' Expenses: '' @ EUR @ toFixed env 2 expenses @ [10]
                   @ (if net \<ge> 0 then CHECKMARK else WARNING) @ S '' Net: ''
                   @ (if net \<ge> 0 then S ''+'' else []) @ EUR @ toFixed env 2 net @ [10]
                   @ BANK @ S '' Balance: '' @ EUR @ toFixed env 2 balance)))"

text \<open>
  The six intents in their fixed order; \<open>Inr None\<close> is the \<open>null\<close> of no intent, and
  \<open>Inl\<close> an exception that leaves the method.
\<close>

definition handleLocalQuery :: "Env \<Rightarrow> jsstring \<Rightarrow> error + jsstring option" where
  "handleLocalQuery env query =
     (if str_includes query (S ''spent'') \<or> str_includes query (S ''spending'')
         \<or> str_includes query (S ''expense'')
      then map_sum id Some (spendingAnswer env query)
      else if str_includes query (S ''income'') \<or> str_includes query (S ''earn'')
      then map_sum id Some (incomeAnswer env)
      else if str_includes query (S ''balance'') \<or> str_includes query (S ''have'')
         \<or> str_includes query (S ''total'')
      then map_sum id Some (balanceAnswer env)
      else if str_includes query (S ''budget'')
      then map_sum id Some (budgetAnswer env)
      else if str_includes query (S ''save'') \<or> str_includes query (S ''saving'')
      then map_sum id Some (savingsAnswer env)
      else if str_includes query (S ''summary'') \<or> str_includes query (S ''overview'')
      then map_sum id Some (summaryAnswer env)
      else Inr None)"

subsection \<open>buildFinancialContext\<close>

definition contextFilter :: "Env \<Rightarrow> TransactionFilters" where
  "contextFilter env =
     \<lparr>startDate = startOfMonth env, endDate = endOfMonth env, f_type = None, limit = Some 20\<rparr>"

definition buildFinancialContext :: "Env \<Rightarrow> error + jsstring" where
  "buildFinancialContext env =
     (case getTransactions env (contextFilter env) of
        Inl e \<Rightarrow> Inl e
      | Inr transactions \<Rightarrow>
          (let accounts = getAccounts env;
               budgets = getBudgets env;
               inc = incomeOf env transactions;
               expenses = expensesOf env transactions;
               balance = sumBalance env accounts;
               topSpending = spendingByCategory env (filter (\<lambda>t. t_type t = expense) transactions);
               topCategories =
                 join (S '', '')
                   (map (\<lambda>(i, amt).
                           (case categoryMapGet (getCategories env) i of
                              Some c \<Rightarrow> dbname c
                            | None \<Rightarrow> S ''undefined'')
                           @ S '': '' @ EUR @ toFixed env 2 amt)
                      (top5 topSpending))
           in Inr (S ''Income: '' @ EUR @ toFixed env 2 inc @ S '', Expenses: '' @ EUR
                   @ toFixed env 2 expenses @ S '', Balance: '' @ EUR @ toFixed env 2 balance @ [10]
                   @ S ''Top categories: '' @ (if topCategories = [] then S ''None'' else topCategories)
                   @ [10]
                   @ S ''Budgets: '' @ showNat (length budgets) @ S '', Accounts: ''
                   @ showNat (length accounts))))"

subsection \<open>processQuery and the response cache\<close>

record CacheEntry =
  response :: jsstring
  timestamp :: int

type_synonym responseCache = "jsstring \<rightharpoonup> CacheEntry"

definition CACHE_TTL :: int where
  "CACHE_TTL = 5 * 60 * 1000"

definition queryPrompt :: "jsstring \<Rightarrow> jsstring \<Rightarrow> jsstring" where
  "queryPrompt context query =
     S ''You are Tracy, a helpful financial assistant. Answer concisely based on this data:''
     @ [10, 10] @ context @ [10, 10]
     @ S ''Question: '' @ query @ [10, 10]
     @ S ''Answer in 1-3 sentences. Use '' @ EUR @ S '' for currency.''"

definition helpMessage :: jsstring where
  "helpMessage = S ''Ask me about: spending, income, balance, budgets, savings, or get a summary!''"

text \<open>
  The \<open>try\<close> block of \<open>processQuery\<close> and what follows it: whatever is thrown while the
  context is built or by the narrative call is caught, and the help message is returned,
  the cache left as it is. The result is the returned string, the cache afterwards and
  the calls made.
\<close>

definition narrative :: "Env \<Rightarrow> responseCache \<Rightarrow> int \<Rightarrow> jsstring \<Rightarrow> jsstring \<Rightarrow> jsstring \<Rightarrow> jsstring \<times> responseCache \<times> call list" where
  "narrative env cache tStore cacheKey lowerQuery query =
     (case buildFinancialContext env of
        Inl e \<Rightarrow> (helpMessage, cache, [HandleLocalQuery lowerQuery, BuildFinancialContext])
      | Inr context \<Rightarrow>
          (case generateText env (queryPrompt context query) of
             Inr ans \<Rightarrow>
               (trim ans, cache(cacheKey \<mapsto> \<lparr>response = trim ans, timestamp = tStore\<rparr>),
                [HandleLocalQuery lowerQuery, BuildFinancialContext,
                 GenerateText (queryPrompt context query)])
           | Inl e \<Rightarrow>
               (helpMessage, cache,
                [HandleLocalQuery lowerQuery, BuildFinancialContext,
                 GenerateText (queryPrompt context query)])))"

text \<open>
  \<open>processQuery\<close> with the module's cache passed in and out. \<open>tLookup\<close> is what
  \<open>Date.now()\<close> returns at the cache check and \<open>tStore\<close> what it returns when the
  response is stored. The cached entry is an object, hence truthy whatever it holds; a
  local answer counts only when it is a non-empty string. \<open>handleLocalQuery\<close> is called
  before the \<open>try\<close> block: what it throws leaves \<open>processQuery\<close>.
\<close>

definition processQuery :: "Env \<Rightarrow> responseCache \<Rightarrow> int \<Rightarrow> int \<Rightarrow> jsstring \<Rightarrow> error + (jsstring \<times> responseCache \<times> call list)" where
  "processQuery env cache tLookup tStore query =
     (let lowerQuery = toLowerCase env query;
          cacheKey = trim lowerQuery;
          hit = (case cache cacheKey of
                   Some cached \<Rightarrow> if tLookup - timestamp cached < CACHE_TTL then Some cached else None
                 | None \<Rightarrow> None)
      in case hit of
           Some cached \<Rightarrow> Inr (response cached, cache, [])
         | None \<Rightarrow>
             (case handleLocalQuery env lowerQuery of
                Inl e \<Rightarrow> Inl e
              | Inr (Some r) \<Rightarrow>
                  if r \<noteq> []
                  then Inr (r, cache(cacheKey \<mapsto> \<lparr>response = r, timestamp = tStore\<rparr>),
                            [HandleLocalQuery lowerQuery])
                  else Inr (narrative env cache tStore cacheKey lowerQuery query)
              | Inr None \<Rightarrow> Inr (narrative env cache tStore cacheKey lowerQuery query)))"

section \<open>Notions of the specification\<close>

text \<open>
  "The first catalog keyword found as a substring of the text": the catalog as a table of
  categories with their keywords, flattened in catalog order and keyword order, and the
  first pair whose keyword the text includes.
\<close>

definition keywordPairs :: "('a \<times> jsstring list) list \<Rightarrow> ('a \<times> jsstring) list" where
  "keywordPairs tab = concat (map (\<lambda>(c, kws). map (\<lambda>kw. (c, kw)) kws) tab)"

definition firstKeywordHit :: "('a \<times> jsstring list) list \<Rightarrow> jsstring \<Rightarrow> ('a \<times> jsstring) option" where
  "firstKeywordHit tab lowerText = find (\<lambda>(c, kw). str_includes lowerText kw) (keywordPairs tab)"

text \<open>
  "An explicit sign adjacent to the number", at the head of a string: a sign, then white
  space, at most one currency symbol and white space again (each possibly absent), then a
  digit.
\<close>

definition signedNumber :: "jsstring \<Rightarrow> bool" where
  "signedNumber s =
     (\<exists>c sp1 cur sp2 d rest.
        s = c # sp1 @ cur @ sp2 @ d # rest \<and> isSign c \<and> list_all isSpace sp1
        \<and> (cur = [] \<or> (\<exists>y. cur = [y] \<and> isCurrency y)) \<and> list_all isSpace sp2 \<and> isDigit d)"

text \<open>
  A question about the balance, as \<open>handleLocalQuery\<close> tells it: a lower-cased query with
  one of the words of the third intent and none of the words of the two intents before it.
\<close>

definition balanceQuery :: "jsstring \<Rightarrow> bool" where
  "balanceQuery query =
     (\<not> (str_includes query (S ''spent'') \<or> str_includes query (S ''spending'')
          \<or> str_includes query (S ''expense''))
      \<and> \<not> (str_includes query (S ''income'') \<or> str_includes query (S ''earn''))
      \<and> (str_includes query (S ''balance'') \<or> str_includes query (S ''have'')
           \<or> str_includes query (S ''total'')))"

text \<open>
  The invariant on the category field as the specification words it: the name of a catalog
  category of the transaction's type, or the fallback name of that type.
\<close>

definition categoryOfType :: "DbCategory list \<Rightarrow> ParsedTransaction \<Rightarrow> bool" where
  "categoryOfType cats r =
     ((\<exists>c\<in>set cats. dbname c = category r \<and> dbtype c = txtype r)
      \<or> category r = fallbackName (txtype r))"

section \<open>Concrete inputs\<close>

text \<open>
  The catalog that \<open>seedDefaultData\<close> writes into an empty database, in the order in which
  \<open>getCategories\<close> returns it (by group, then by name); the identifiers, random in the
  program, are numbered here.
\<close>

definition mkDbCategory :: "string \<Rightarrow> string \<Rightarrow> TxType \<Rightarrow> DbCategory" where
  "mkDbCategory i n t = \<lparr>dbid = S i, dbname = S n, dbtype = t\<rparr>"

definition seededCategories :: "DbCategory list" where
  "seededCategories =
   [mkDbCategory ''c03'' ''Groceries'' Expense,
    mkDbCategory ''c04'' ''Healthcare'' Expense,
    mkDbCategory ''c05'' ''Insurance'' Expense,
    mkDbCategory ''c01'' ''Rent/Mortgage'' Expense,
    mkDbCategory ''c02'' ''Utilities'' Expense,
    mkDbCategory ''c15'' ''Freelance'' Income,
    mkDbCategory ''c17'' ''Gifts'' Income,
    mkDbCategory ''c16'' ''Investments'' Income,
    mkDbCategory ''c18'' ''Refund'' Income,
    mkDbCategory ''c14'' ''Salary'' Income,
    mkDbCategory ''c06'' ''Dining Out'' Expense,
    mkDbCategory ''c07'' ''Entertainment'' Expense,
    mkDbCategory ''c08'' ''Shopping'' Expense,
    mkDbCategory ''c09'' ''Subscriptions'' Expense,
    mkDbCategory ''c21'' ''Other'' Expense,
    mkDbCategory ''c22'' ''Other Income'' Income,
    mkDbCategory ''c20'' ''Investments'' Expense,
    mkDbCategory ''c19'' ''Savings Transfer'' Expense,
    mkDbCategory ''c13'' ''Car Maintenance'' Expense,
    mkDbCategory ''c10'' ''Gas'' Expense,
    mkDbCategory ''c12'' ''Parking'' Expense,
    mkDbCategory ''c11'' ''Public Transit'' Expense]"

text \<open>
  A host for the examples. Its case mapping is that of the letters of ASCII and Latin-1
  and leaves every other code unit as it is. On strings of code units below 0x100 this is
  what \<open>toLowerCase\<close> and \<open>toUpperCase\<close> do, and the examples put no other strings
  through them.
\<close>

definition lower_unit :: "nat \<Rightarrow> nat" where
  "lower_unit c =
     (if (65 \<le> c \<and> c \<le> 90) \<or> (192 \<le> c \<and> c \<le> 222 \<and> c \<noteq> 215) then c + 32 else c)"

definition upper_unit :: "nat \<Rightarrow> jsstring" where
  "upper_unit c =
     (if (97 \<le> c \<and> c \<le> 122) \<or> (224 \<le> c \<and> c \<le> 254 \<and> c \<noteq> 247) then [c - 32]
      else if c = 223 then [83, 83]
      else if c = 181 then [924]
      else if c = 255 then [376]
      else [c])"

definition exampleHost :: Host where
  "exampleHost =
     \<lparr>toLowerCase = map lower_unit, toUpperCase = (\<lambda>s. concat (map upper_unit s)),
      today = S ''2024-05-10'', yesterday = S ''2024-05-09'', lastWeek = S ''2024-05-03''\<rparr>"

text \<open>
  \<open>toFixed\<close> as it works on the exact value of a number below \<open>10^21\<close>: the digits of
  the nearest multiple of \<open>10^-n\<close> (a half rounds away from zero), after the sign of a
  negative number. The numbers of the example world are small integers, which are doubles
  and whose sums are doubles: no result there is rounded, and \<open>fl\<close> is the identity.
\<close>

definition padLeft :: "nat \<Rightarrow> jsstring \<Rightarrow> jsstring" where
  "padLeft n s = replicate (n - length s) 48 @ s"

definition toFixedExact :: "nat \<Rightarrow> real \<Rightarrow> jsstring" where
  "toFixedExact n x =
     (let k = nat \<lfloor>\<bar>x\<bar> * 10 ^ n + 1 / 2\<rfloor>;
          body = showNat (k div 10 ^ n) @ (if n = 0 then [] else 46 # padLeft n (showNat (k mod 10 ^ n)))
      in if x < 0 then 45 # body else body)"

definition exampleObject :: ModelObject where
  "exampleObject =
     \<lparr>o_amount = - 12, o_type = Expense, o_category = S ''gas'', o_merchant = None,
      o_description = S ''Fuel'', o_date = S ''yesterday'', o_confidence = 0.9\<rparr>"

definition exampleEnv :: Env where
  "exampleEnv =
     \<lparr>toLowerCase = map lower_unit, toUpperCase = (\<lambda>s. concat (map upper_unit s)),
      today = S ''2024-05-10'', yesterday = S ''2024-05-09'', lastWeek = S ''2024-05-03'',
      getCategories = seededCategories,
      getTransactions = (\<lambda>f. Inr []),
      getAccounts = [\<lparr>a_name = S ''Cash'', a_balance = Some 0\<rparr>],
      getBudgets = [],
      startOfMonth = S ''2024-05-01'',
      endOfMonth = S ''2024-05-31'',
      generateObject = (\<lambda>prompt. Inr exampleObject),
      generateText = (\<lambda>prompt. Inr (S ''You are doing fine.'')),
      fl = (\<lambda>x. x),
      toFixed = toFixedExact\<rparr>"

text \<open>The same world with a model that is not reachable, and with one that answers blanks.\<close>

definition failingEnv :: Env where
  "failingEnv =
     exampleEnv\<lparr>generateObject := (\<lambda>prompt. Inl (Thrown (S ''connection refused''))),
                generateText := (\<lambda>prompt. Inl (Thrown (S ''connection refused'')))\<rparr>"

definition blankEnv :: Env where
  "blankEnv = exampleEnv\<lparr>generateText := (\<lambda>prompt. Inr (S ''  ''))\<rparr>"

text \<open>
  The same world after an import has added an account whose balance is \<open>null\<close>
  (\<open>addAccount\<close> stores the balance it is given, and the column admits \<open>NULL\<close>).
\<close>

definition nullBalanceEnv :: Env where
  "nullBalanceEnv =
     exampleEnv\<lparr>getAccounts := [\<lparr>a_name = S ''Cash'', a_balance = Some 0\<rparr>,
                                  \<lparr>a_name = S ''Imported'', a_balance = None\<rparr>]\<rparr>"

text \<open>
  What the example world answers to a question about the balance, and the context that it
  hands to the narrative call.
\<close>

definition exampleBalance :: jsstring where
  "exampleBalance =
     S ''Total balance: '' @ EUR @ S ''0.00'' @ [10, 10] @ S ''Cash: '' @ EUR @ S ''0.00''"

definition exampleContext :: jsstring where
  "exampleContext =
     S ''Income: '' @ EUR @ S ''0.00, Expenses: '' @ EUR @ S ''0.00, Balance: '' @ EUR @ S ''0.00''
     @ [10] @ S ''Top categories: None'' @ [10] @ S ''Budgets: 0, Accounts: 1''"

text \<open>A catalog to which the user has added a category \<open>gas\<close> beside the seeded \<open>Gas\<close>.\<close>

definition twoGasEnv :: Env where
  "twoGasEnv =
     exampleEnv\<lparr>getCategories := [mkDbCategory ''c10'' ''Gas'' Expense, mkDbCategory ''u01'' ''gas'' Expense]\<rparr>"

definition exampleParsed :: ParsedTransaction where
  "exampleParsed =
     \<lparr>amount = Num 5, txtype = Expense, category = S ''gas'', merchant = None,
      description = S ''Fuel'', date = S ''2024-05-10'', confidence = 0.9\<rparr>"

section \<open>Auxiliary lemmas\<close>

subsection \<open>Leftmost matches and the amount of the backend parser\<close>

lemma search_SomeD: "search f s = Some m \<Longrightarrow> \<exists>k\<le>length s. f (drop k s) = Some m"
proof (induction s)
  case Nil then show ?case by simp
next
  case (Cons c cs)
  show ?case
  proof (cases "f (c # cs)")
    case (Some a)
    with Cons.prems have "f (drop 0 (c # cs)) = Some m" by simp
    then show ?thesis by blast
  next
    case None
    with Cons.prems have "search f cs = Some m" by simp
    from Cons.IH[OF this] obtain k where "k \<le> length cs" "f (drop k cs) = Some m" by blast
    then have "Suc k \<le> length (c # cs) \<and> f (drop (Suc k) (c # cs)) = Some m" by simp
    then show ?thesis by blast
  qed
qed

lemma search_append:
  "f suf = Some m \<Longrightarrow> (\<forall>k<length pre. f (drop k pre @ suf) = None) \<Longrightarrow> search f (pre @ suf) = Some m"
proof (induction pre)
  case Nil
  then show ?case by (cases suf) auto
next
  case (Cons c cs)
  from Cons.prems(2) have h0: "f ((c # cs) @ suf) = None" by (metis drop0 length_greater_0_conv list.simps(3))
  have "\<forall>k<length cs. f (drop k cs @ suf) = None"
  proof (intro allI impI)
    fix k assume "k < length cs"
    then have "Suc k < length (c # cs)" by simp
    from Cons.prems(2)[rule_format, OF this] show "f (drop k cs @ suf) = None" by simp
  qed
  from Cons.IH[OF Cons.prems(1) this] h0 show ?case by simp
qed

lemma decimal_SomeD: "decimal s = Some (m, rest) \<Longrightarrow> \<exists>d ds. m = d # ds \<and> isDigit d"
proof -
  assume a: "decimal s = Some (m, rest)"
  let ?ds = "takeWhile isDigit s"
  from a have ne: "?ds \<noteq> []" by (auto simp: decimal_def Let_def split: if_splits)
  then obtain d ds' where d: "?ds = d # ds'" by (cases ?ds) auto
  then have "d \<in> set ?ds" by simp
  then have dd: "isDigit d" by (rule set_takeWhileD[THEN conjunct2])
  from a have "\<exists>e. m = ?ds @ e"
    by (auto simp: decimal_def Let_def split: if_splits list.splits)
  then obtain e where "m = ?ds @ e" by blast
  with d have "m = d # (ds' @ e)" by simp
  with dd show ?thesis by blast
qed

lemma decimal_Some_iff: "(decimal s \<noteq> None) = (\<exists>d r. s = d # r \<and> isDigit d)"
  by (cases s) (auto simp: decimal_def Let_def split: list.splits)

lemma parseFloat_digit:
  "isDigit d \<Longrightarrow> \<exists>x. parseFloat (replace_comma (d # ds)) = Num x \<and> 0 \<le> x"
  by (auto simp: parseFloat_def Let_def isDigit_def)


lemma amountPattern1_SomeD:
  "amountPattern1 s = Some m \<Longrightarrow> \<exists>c r d ds. s = c # r \<and> isSign c \<and> m = [[c], d # ds] \<and> isDigit d"
  by (cases s) (auto simp: amountPattern1_def split: if_splits option.splits dest: decimal_SomeD)

lemma amountPattern2_SomeD:
  "amountPattern2 s = Some m \<Longrightarrow> \<exists>d ds. m = [d # ds] \<and> isDigit d"
  by (cases s) (auto simp: amountPattern2_def split: if_splits option.splits dest: decimal_SomeD)

lemma amountPattern3_SomeD:
  "amountPattern3 s = Some m \<Longrightarrow> \<exists>d ds. m = [d # ds] \<and> isDigit d"
  by (auto simp: amountPattern3_def split: option.splits dest: decimal_SomeD)

lemma amountPattern4_SomeD:
  "amountPattern4 s = Some m \<Longrightarrow> \<exists>d ds. m = [d # ds] \<and> isDigit d"
  by (auto simp: amountPattern4_def split: option.splits dest: decimal_SomeD)

lemma amount_signed:
  assumes "isSign c" "isDigit d"
  shows "\<exists>x. (case group [[c], d # ds] 2 of
               Some g \<Rightarrow> Inr (parseFloat (replace_comma g), group [[c], d # ds] 1)
             | None \<Rightarrow> Inl TypeError) = Inr (Num x, Some [c]) \<and> 0 \<le> x"
  using parseFloat_digit[OF assms(2), of ds] by (auto simp: group_def)

lemma amount_unsigned:
  assumes "isDigit d"
  shows "\<exists>x. parseFloat (replace_comma (or_else (js_or (group [d # ds] 1) (group [d # ds] 2)) [48]))
            = Num x \<and> 0 \<le> x"
  using parseFloat_digit[OF assms, of ds] by (auto simp: group_def js_or_def or_else_def)

lemma group1_sign: "isDigit d \<Longrightarrow> group [d # ds] 1 \<noteq> Some [43] \<and> group [d # ds] 1 \<noteq> Some [45]"
  by (auto simp: group_def isDigit_def)

lemma amountLoop_total:
  "\<exists>x sg. amountLoop amountPatterns text = Inr (Num x, sg) \<and> 0 \<le> x
          \<and> (sg = None \<or> sg = Some [43] \<or> sg = Some [45])"
proof (cases "search amountPattern1 text")
  case (Some m)
  from search_SomeD[OF Some] obtain k where "amountPattern1 (drop k text) = Some m" by blast
  from amountPattern1_SomeD[OF this] obtain c r d ds where
    m: "m = [[c], d # ds]" and c: "isSign c" and d: "isDigit d" by blast
  from c have g: "group m 1 = Some [43] \<or> group m 1 = Some [45]"
    by (auto simp: m group_def isSign_def)
  from amount_signed[OF c d, of ds] obtain x where
    "(case group m 2 of Some g \<Rightarrow> Inr (parseFloat (replace_comma g), group m 1)
       | None \<Rightarrow> Inl TypeError) = Inr (Num x, Some [c])" "0 \<le> x"
    unfolding m by blast
  with Some g c show ?thesis
    by (auto simp: amountPatterns_def isSign_def)
next
  case n1: None
  show ?thesis
  proof (cases "search amountPattern2 text")
    case (Some m)
    from search_SomeD[OF Some] obtain k where "amountPattern2 (drop k text) = Some m" by blast
    from amountPattern2_SomeD[OF this] obtain d ds where m: "m = [d # ds]" and d: "isDigit d" by blast
    from amount_unsigned[OF d, of ds] group1_sign[OF d, of ds] n1 Some show ?thesis
      by (auto simp: amountPatterns_def m)
  next
    case n2: None
    show ?thesis
    proof (cases "search amountPattern3 text")
      case (Some m)
      from search_SomeD[OF Some] obtain k where "amountPattern3 (drop k text) = Some m" by blast
      from amountPattern3_SomeD[OF this] obtain d ds where m: "m = [d # ds]" and d: "isDigit d" by blast
      from amount_unsigned[OF d, of ds] group1_sign[OF d, of ds] n1 n2 Some show ?thesis
        by (auto simp: amountPatterns_def m)
    next
      case n3: None
      show ?thesis
      proof (cases "search amountPattern4 text")
        case (Some m)
        from search_SomeD[OF Some] obtain k where "amountPattern4 (drop k text) = Some m" by blast
        from amountPattern4_SomeD[OF this] obtain d ds where m: "m = [d # ds]" and d: "isDigit d" by blast
        from amount_unsigned[OF d, of ds] group1_sign[OF d, of ds] n1 n2 n3 Some show ?thesis
          by (auto simp: amountPatterns_def m)
      next
        case None
        with n1 n2 n3 show ?thesis by (auto simp: amountPatterns_def)
      qed
    qed
  qed
qed


subsection \<open>The first keyword hit\<close>

lemma find_append_opt:
  "find P (xs @ ys) = (case find P xs of Some x \<Rightarrow> Some x | None \<Rightarrow> find P ys)"
  by (induction xs) auto

lemma find_map_pair:
  "find (\<lambda>(c, kw). Q kw) (map (\<lambda>kw. (a, kw)) kws) = map_option (\<lambda>kw. (a, kw)) (find Q kws)"
  by (induction kws) auto

lemma firstKeywordHit_Cons:
  "firstKeywordHit ((a, kws) # tab) lt =
     (case find (\<lambda>kw. str_includes lt kw) kws of
        Some kw \<Rightarrow> Some (a, kw)
      | None \<Rightarrow> firstKeywordHit tab lt)"
  by (simp add: firstKeywordHit_def keywordPairs_def find_append_opt find_map_pair
      split: option.splits)

lemma firstKeywordHit_Nil: "firstKeywordHit [] lt = None"
  by (simp add: firstKeywordHit_def keywordPairs_def)

lemma matchCategory_first:
  "matchCategory cats lt = map_option fst (firstKeywordHit (map (\<lambda>c. (c, ckeywords c)) cats) lt)"
  by (induction cats) (auto simp: firstKeywordHit_Cons firstKeywordHit_Nil split: option.splits)

lemma matchCategory_SomeD: "matchCategory cats lt = Some c \<Longrightarrow> c \<in> set cats"
  by (induction cats) (auto split: option.splits)

lemma names_nonempty: "\<forall>c\<in>set DEFAULT_CATEGORIES. cname c \<noteq> []"
  by (simp add: DEFAULT_CATEGORIES_def mkCategory_def S_def)

lemma fallback_Income: "\<exists>c\<in>set DEFAULT_CATEGORIES. fallbackCategory Income = Some c \<and> cname c = fallbackName Income \<and> ctype c = Income"
  by (simp add: fallbackCategory_def DEFAULT_CATEGORIES_def mkCategory_def S_def fallbackName_def)

lemma fallback_Expense: "\<exists>c\<in>set DEFAULT_CATEGORIES. fallbackCategory Expense = Some c \<and> cname c = fallbackName Expense \<and> ctype c = Expense"
  by (simp add: fallbackCategory_def DEFAULT_CATEGORIES_def mkCategory_def S_def fallbackName_def)


lemma find_None_list_ex: "(find P xs = None) = (\<not> list_ex P xs)"
  by (induction xs) auto

lemma detect_first:
  "map_option fst (find (\<lambda>(cat, kws). some_included kws lt) tab) = map_option fst (firstKeywordHit tab lt)"
proof (induction tab)
  case Nil
  then show ?case by (simp add: firstKeywordHit_Nil)
next
  case (Cons a tab)
  obtain cat kws where a: "a = (cat, kws)" by (cases a)
  show ?case
  proof (cases "find (\<lambda>kw. str_includes lt kw) kws")
    case None
    then have "\<not> some_included kws lt" by (simp add: some_included_def find_None_list_ex)
    with None Cons.IH show ?thesis by (simp add: a firstKeywordHit_Cons)
  next
    case (Some kw)
    then have "some_included kws lt"
      using find_None_list_ex[of "\<lambda>kw. str_includes lt kw" kws] by (simp add: some_included_def)
    with Some show ?thesis by (simp add: a firstKeywordHit_Cons)
  qed
qed

lemma detectCategory_first:
  "detectCategory t lt =
     (case firstKeywordHit categoryKeywords lt of
        Some (cat, kw) \<Rightarrow> (cat, 0.8)
      | None \<Rightarrow> (fallbackName t, 0.5))"
proof (cases "find (\<lambda>(cat, kws). some_included kws lt) categoryKeywords")
  case None
  with detect_first[of lt categoryKeywords] have "firstKeywordHit categoryKeywords lt = None" by simp
  with None show ?thesis by (simp add: detectCategory_def)
next
  case (Some a)
  obtain cat kws where a: "a = (cat, kws)" by (cases a)
  from detect_first[of lt categoryKeywords] Some a
  have "map_option fst (firstKeywordHit categoryKeywords lt) = Some cat" by simp
  then obtain kw where "firstKeywordHit categoryKeywords lt = Some (cat, kw)" by auto
  with Some a show ?thesis by (simp add: detectCategory_def)
qed

subsection \<open>Both rule parsers return\<close>

lemma amountMatchAI_SomeD:
  "amountMatchAI s = Some m \<Longrightarrow> \<exists>d ds. m = [d # ds] \<and> isDigit d"
  by (auto simp: amountMatchAI_def split: option.splits dest: decimal_SomeD)

lemma amountAI_total: "\<exists>x. amountAI text = Inr (Num x) \<and> 0 \<le> x"
proof (cases "search amountMatchAI text")
  case None
  then show ?thesis by (simp add: amountAI_def)
next
  case (Some m)
  from search_SomeD[OF Some] obtain k where "amountMatchAI (drop k text) = Some m" by blast
  from amountMatchAI_SomeD[OF this] obtain d ds where m: "m = [d # ds]" and d: "isDigit d" by blast
  from parseFloat_digit[OF d, of ds] Some show ?thesis
    by (auto simp: amountAI_def m group_def)
qed

lemma merchantPattern_SomeD: "merchantPattern w s = Some m \<Longrightarrow> \<exists>cap. m = [cap]"
  by (auto simp: merchantPattern_def split: option.splits if_splits list.splits)

lemma merchantLoop_total: "\<exists>m. merchantLoop merchantPatterns text = Inr m"
proof (cases "search (merchantPattern (S ''at'')) text")
  case (Some m)
  from search_SomeD[OF Some] merchantPattern_SomeD obtain cap where "m = [cap]" by blast
  with Some show ?thesis by (simp add: merchantPatterns_def group_def)
next
  case n1: None
  show ?thesis
  proof (cases "search (merchantPattern (S ''from'')) text")
    case (Some m)
    from search_SomeD[OF Some] merchantPattern_SomeD obtain cap where "m = [cap]" by blast
    with Some n1 show ?thesis by (simp add: merchantPatterns_def group_def)
  next
    case None
    with n1 show ?thesis by (simp add: merchantPatterns_def)
  qed
qed

lemma parseWithRules_eq:
  "\<exists>x m. 0 \<le> x \<and> parseWithRules env text =
     Inr \<lparr>amount = Num x,
          txtype = typeAI (toLowerCase env text),
          category = or_else (map_option dbname
             (find (\<lambda>c. toLowerCase env (dbname c) = toLowerCase env (fst (detectCategory (typeAI (toLowerCase env text)) (toLowerCase env text)))
                        \<and> dbtype c = typeAI (toLowerCase env text)) (getCategories env)))
             (fst (detectCategory (typeAI (toLowerCase env text)) (toLowerCase env text))),
          merchant = m,
          description = text,
          date = (if str_includes (toLowerCase env text) (S ''yesterday'') then yesterday env
                  else today env),
          confidence = snd (detectCategory (typeAI (toLowerCase env text)) (toLowerCase env text))\<rparr>"
proof -
  from amountAI_total obtain x where x: "amountAI text = Inr (Num x)" "0 \<le> x" by blast
  from merchantLoop_total obtain m where m: "merchantLoop merchantPatterns text = Inr m" by blast
  from x m show ?thesis by (auto simp: parseWithRules_def Let_def)
qed

lemma parseTransaction_eq:
  "\<exists>x sg. 0 \<le> x \<and> (sg = None \<or> sg = Some [43] \<or> sg = Some [45])
     \<and> amountLoop amountPatterns text = Inr (Num x, sg)
     \<and> parseTransaction host text =
       (let lowerText = trim (toLowerCase host text);
            type = classifyType sg lowerText;
            loopMatch = matchCategory (categoriesForType type) lowerText;
            matchedCategory = (case loopMatch of Some c \<Rightarrow> Some c | None \<Rightarrow> fallbackCategory type);
            stripped = stripDescription text
        in Inr \<lparr>amount = Num x,
                txtype = type,
                category = or_else (map_option cname matchedCategory) (S ''Other''),
                merchant = extractMerchant text,
                description = capitalize host (if length stripped < 2
                       then or_else (map_option cname matchedCategory) (S ''Transaction'')
                       else stripped),
                date = resolveDate host lowerText,
                confidence = (case loopMatch of Some c \<Rightarrow> 0.85 | None \<Rightarrow> 0.5)\<rparr>)"
proof -
  from amountLoop_total obtain x sg where
    "amountLoop amountPatterns text = Inr (Num x, sg)" "0 \<le> x" "sg = None \<or> sg = Some [43] \<or> sg = Some [45]"
    by blast
  then show ?thesis by (auto simp: parseTransaction_def Let_def)
qed

lemma pipeline_cases:
  assumes "parseWithRules env text = Inr rb"
  shows "AIService_parseTransaction env text = Inr (rb, [])
       \<or> AIService_parseTransaction env text = Inr (rb, [GenerateObject (parsePrompt env text)])
       \<or> (\<exists>obj. generateObject env (parsePrompt env text) = Inr obj \<and>
            AIService_parseTransaction env text =
              Inr (validateAndEnrich env (fromModel obj), [GenerateObject (parsePrompt env text)]))"
  using assms by (auto simp: AIService_parseTransaction_def split: sum.splits)

subsection \<open>The category that a parse returns\<close>

lemma firstKeywordHit_SomeD:
  "firstKeywordHit tab lt = Some (c, kw) \<Longrightarrow> \<exists>kws. (c, kws) \<in> set tab \<and> kw \<in> set kws \<and> str_includes lt kw"
proof (induction tab)
  case Nil
  then show ?case by (simp add: firstKeywordHit_Nil)
next
  case (Cons a tab)
  obtain c' kws' where a: "a = (c', kws')" by (cases a)
  show ?case
  proof (cases "find (\<lambda>kw. str_includes lt kw) kws'")
    case None
    with Cons.prems a have "firstKeywordHit tab lt = Some (c, kw)" by (simp add: firstKeywordHit_Cons)
    from Cons.IH[OF this] show ?thesis by auto
  next
    case (Some k)
    with Cons.prems a have "c = c'" "kw = k" by (simp_all add: firstKeywordHit_Cons)
    with Some a show ?thesis by (auto simp: find_Some_iff)
  qed
qed

lemma categoriesForType_D: "c \<in> set (categoriesForType t) \<Longrightarrow> c \<in> set DEFAULT_CATEGORIES \<and> ctype c = t"
  by (simp add: categoriesForType_def)

lemma fallbackName_nonempty: "fallbackName t \<noteq> []"
  by (simp add: fallbackName_def S_def)

lemma parseTransaction_category:
  "\<exists>r. parseTransaction host text = Inr r \<and>
     (case matchCategory (categoriesForType (txtype r)) (trim (toLowerCase host text)) of
        Some c \<Rightarrow> c \<in> set DEFAULT_CATEGORIES \<and> ctype c = txtype r \<and> category r = cname c
                  \<and> confidence r = 0.85
      | None \<Rightarrow> category r = fallbackName (txtype r) \<and> confidence r = 0.5
                \<and> (\<exists>c\<in>set DEFAULT_CATEGORIES. cname c = category r \<and> ctype c = txtype r))"
proof -
  let ?lt = "trim (toLowerCase host text)"
  from parseTransaction_eq[of "text" host] obtain x sg where
    p: "parseTransaction host text =
       (let lowerText = trim (toLowerCase host text);
            type = classifyType sg lowerText;
            loopMatch = matchCategory (categoriesForType type) lowerText;
            matchedCategory = (case loopMatch of Some c \<Rightarrow> Some c | None \<Rightarrow> fallbackCategory type);
            stripped = stripDescription text
        in Inr \<lparr>amount = Num x,
                txtype = type,
                category = or_else (map_option cname matchedCategory) (S ''Other''),
                merchant = extractMerchant text,
                description = capitalize host (if length stripped < 2
                       then or_else (map_option cname matchedCategory) (S ''Transaction'')
                       else stripped),
                date = resolveDate host lowerText,
                confidence = (case loopMatch of Some c \<Rightarrow> 0.85 | None \<Rightarrow> 0.5)\<rparr>)"
    by blast
  let ?ty = "classifyType sg ?lt"
  show ?thesis
  proof (cases "matchCategory (categoriesForType ?ty) ?lt")
    case (Some c)
    from matchCategory_SomeD[OF Some] categoriesForType_D
    have c: "c \<in> set DEFAULT_CATEGORIES" "ctype c = ?ty" by blast+
    with names_nonempty have "cname c \<noteq> []" by blast
    with p Some c show ?thesis by (simp add: Let_def or_else_def)
  next
    case None
    from fallback_Income fallback_Expense obtain c0 where
      c0: "c0 \<in> set DEFAULT_CATEGORIES" "fallbackCategory ?ty = Some c0"
          "cname c0 = fallbackName ?ty" "ctype c0 = ?ty"
      by (cases ?ty) auto
    with p None fallbackName_nonempty[of ?ty] show ?thesis
      by (auto simp: Let_def or_else_def)
  qed
qed

lemma or_else_find:
  "or_else (map_option dbname (find P cats)) d = d
   \<or> (\<exists>c\<in>set cats. P c \<and> dbname c = or_else (map_option dbname (find P cats)) d)"
proof (cases "find P cats")
  case None
  then show ?thesis by (simp add: or_else_def)
next
  case (Some c)
  then have "c \<in> set cats" "P c" by (auto simp: find_Some_iff)
  with Some show ?thesis by (cases "dbname c = []") (auto simp: or_else_def)
qed

lemma or_else_find_in:
  "or_else (map_option dbname (find P cats)) d = d
   \<or> or_else (map_option dbname (find P cats)) d \<in> dbname ` set cats"
  using or_else_find[of P cats d] by force

lemma parseWithRules_category:
  "\<exists>r. parseWithRules env text = Inr r \<and> txtype r = typeAI (toLowerCase env text) \<and>
     (case firstKeywordHit categoryKeywords (toLowerCase env text) of
        Some (cat, kw) \<Rightarrow>
          confidence r = 0.8 \<and> cat \<in> fst ` set categoryKeywords
          \<and> (category r = cat
               \<or> (\<exists>c\<in>set (getCategories env). dbname c = category r \<and> dbtype c = txtype r
                     \<and> toLowerCase env (dbname c) = toLowerCase env cat))
      | None \<Rightarrow>
          confidence r = 0.5
          \<and> (category r = fallbackName (txtype r)
               \<or> (\<exists>c\<in>set (getCategories env). dbname c = category r \<and> dbtype c = txtype r
                     \<and> toLowerCase env (dbname c) = toLowerCase env (fallbackName (txtype r)))))"
proof -
  let ?lt = "toLowerCase env text"
  let ?ty = "typeAI ?lt"
  let ?cc = "detectCategory ?ty ?lt"
  let ?P = "\<lambda>c. toLowerCase env (dbname c) = toLowerCase env (fst ?cc) \<and> dbtype c = ?ty"
  from parseWithRules_eq[of env "text"] obtain r where
    r: "parseWithRules env text = Inr r" "txtype r = ?ty"
       "category r = or_else (map_option dbname (find ?P (getCategories env))) (fst ?cc)"
       "confidence r = snd ?cc"
    by auto
  from or_else_find[of ?P "getCategories env" "fst ?cc"] r(2,3)
  have alt: "category r = fst ?cc
     \<or> (\<exists>c\<in>set (getCategories env). dbname c = category r \<and> dbtype c = txtype r
           \<and> toLowerCase env (dbname c) = toLowerCase env (fst ?cc))"
    by auto
  show ?thesis
  proof (cases "firstKeywordHit categoryKeywords ?lt")
    case None
    then have "?cc = (fallbackName ?ty, 0.5)" by (simp add: detectCategory_first)
    with r alt None show ?thesis by auto
  next
    case (Some a)
    obtain cat kw where a: "a = (cat, kw)" by (cases a)
    from Some a have cc: "?cc = (cat, 0.8)" by (simp add: detectCategory_first)
    from firstKeywordHit_SomeD[of categoryKeywords ?lt cat kw] Some a
    have "cat \<in> fst ` set categoryKeywords" by force
    with r alt Some a cc show ?thesis by auto
  qed
qed

lemma validate_category:
  "category (validateAndEnrich env parsed) \<in> dbname ` set (getCategories env)
   \<or> category (validateAndEnrich env parsed) = fallbackName (txtype parsed)"
proof -
  let ?cats = "getCategories env"
  let ?E = "\<lambda>c. toLowerCase env (dbname c) = toLowerCase env (category parsed)"
  let ?F = "\<lambda>c. str_includes (toLowerCase env (dbname c)) (toLowerCase env (category parsed))"
  show ?thesis
  proof (cases "find ?E ?cats")
    case (Some c)
    then have "c \<in> set ?cats" by (auto simp: find_Some_iff)
    with Some show ?thesis by (simp add: validateAndEnrich_def Let_def)
  next
    case None
    from or_else_find_in[of ?F ?cats "fallbackName (txtype parsed)"] None
    show ?thesis by (auto simp: validateAndEnrich_def Let_def)
  qed
qed

lemma validate_txtype: "txtype (validateAndEnrich env parsed) = txtype parsed"
  by (simp add: validateAndEnrich_def Let_def)

lemma parseWithRules_category_weak:
  "\<exists>r. parseWithRules env text = Inr r
        \<and> (category r \<in> fst ` set categoryKeywords \<or> category r = fallbackName (txtype r)
             \<or> (\<exists>c\<in>set (getCategories env). dbname c = category r \<and> dbtype c = txtype r))"
proof -
  from parseWithRules_category[of env "text"] obtain r where
    r: "parseWithRules env text = Inr r"
    and c: "case firstKeywordHit categoryKeywords (toLowerCase env text) of
        Some (cat, kw) \<Rightarrow>
          confidence r = 0.8 \<and> cat \<in> fst ` set categoryKeywords
          \<and> (category r = cat
               \<or> (\<exists>c\<in>set (getCategories env). dbname c = category r \<and> dbtype c = txtype r
                     \<and> toLowerCase env (dbname c) = toLowerCase env cat))
      | None \<Rightarrow>
          confidence r = 0.5
          \<and> (category r = fallbackName (txtype r)
               \<or> (\<exists>c\<in>set (getCategories env). dbname c = category r \<and> dbtype c = txtype r
                     \<and> toLowerCase env (dbname c) = toLowerCase env (fallbackName (txtype r))))"
    by blast
  have "category r \<in> fst ` set categoryKeywords \<or> category r = fallbackName (txtype r)
             \<or> (\<exists>c\<in>set (getCategories env). dbname c = category r \<and> dbtype c = txtype r)"
  proof (cases "firstKeywordHit categoryKeywords (toLowerCase env text)")
    case None
    with c show ?thesis by auto
  next
    case (Some a)
    with c show ?thesis by (cases a) auto
  qed
  with r show ?thesis by blast
qed

subsection \<open>Signed numbers\<close>

lemma digit_not_space: "isDigit d \<Longrightarrow> \<not> isSpace d"
  by (auto simp: isDigit_def isSpace_def)

lemma digit_not_currency: "isDigit d \<Longrightarrow> \<not> isCurrency d"
  by (auto simp: isDigit_def isCurrency_def)

lemma currency_not_space: "isCurrency y \<Longrightarrow> \<not> isSpace y"
  by (auto simp: isCurrency_def isSpace_def)

lemma dropWhile_all: "list_all P xs \<Longrightarrow> \<not> P y \<Longrightarrow> dropWhile P (xs @ y # ys) = y # ys"
  by (induction xs) auto

lemma list_all_takeWhile: "list_all P (takeWhile P xs)"
  by (induction xs) auto

lemma decimal_digit: "isDigit d \<Longrightarrow> decimal (d # rest) \<noteq> None"
  using decimal_Some_iff[of "d # rest"] by blast

lemma skip_opt_cases: "\<exists>cur. s = cur @ skip_opt P s \<and> (cur = [] \<or> (\<exists>y. cur = [y] \<and> P y))"
  by (cases s) (auto simp: skip_opt_def)

lemma signedNumber_pattern: "signedNumber s = (amountPattern1 s \<noteq> None)"
proof
  assume "signedNumber s"
  then obtain c sp1 cur sp2 d rest where
    s: "s = c # sp1 @ cur @ sp2 @ d # rest" and c: "isSign c" and sp1: "list_all isSpace sp1"
    and cur: "cur = [] \<or> (\<exists>y. cur = [y] \<and> isCurrency y)" and sp2: "list_all isSpace sp2"
    and d: "isDigit d"
    unfolding signedNumber_def by blast
  from d have nd: "\<not> isSpace d" "\<not> isCurrency d" by (simp_all add: digit_not_space digit_not_currency)
  have "dropWhile isSpace (skip_opt isCurrency (dropWhile isSpace (sp1 @ cur @ sp2 @ d # rest))) = d # rest"
  proof (cases "cur = []")
    case True
    from sp1 sp2 have "list_all isSpace (sp1 @ sp2)" by simp
    from dropWhile_all[OF this nd(1), of rest] True nd show ?thesis
      by (simp add: skip_opt_def)
  next
    case False
    with cur obtain y where y: "cur = [y]" "isCurrency y" by blast
    from dropWhile_all[OF sp1 currency_not_space[OF y(2)], of "sp2 @ d # rest"]
         dropWhile_all[OF sp2 nd(1), of rest] y
    show ?thesis by (simp add: skip_opt_def)
  qed
  with s c decimal_digit[OF d, of rest] show "amountPattern1 s \<noteq> None"
    by (auto simp: amountPattern1_def split: option.splits)
next
  assume "amountPattern1 s \<noteq> None"
  then obtain c r where s: "s = c # r" and c: "isSign c"
    and dec: "decimal (dropWhile isSpace (skip_opt isCurrency (dropWhile isSpace r))) \<noteq> None"
    by (cases s) (auto simp: amountPattern1_def split: if_splits option.splits)
  let ?r1 = "dropWhile isSpace r"
  let ?r2 = "skip_opt isCurrency ?r1"
  let ?r3 = "dropWhile isSpace ?r2"
  from dec decimal_Some_iff[of ?r3] obtain d rest where r3: "?r3 = d # rest" and d: "isDigit d"
    by blast
  have r: "r = takeWhile isSpace r @ ?r1" by simp
  have r2: "?r2 = takeWhile isSpace ?r2 @ ?r3" by simp
  from skip_opt_cases[of ?r1 isCurrency] obtain cur where
    cur: "?r1 = cur @ ?r2" "cur = [] \<or> (\<exists>y. cur = [y] \<and> isCurrency y)"
    by blast
  have "s = c # takeWhile isSpace r @ cur @ takeWhile isSpace ?r2 @ d # rest"
    using s r cur(1) r2 r3 by metis
  with c cur(2) d show "signedNumber s"
    unfolding signedNumber_def using list_all_takeWhile by blast
qed

lemma amountLoop_signed:
  assumes "search amountPattern1 text = Some m"
  shows "\<exists>x c cap. m = [[c], cap] \<and> isSign c \<and> amountLoop amountPatterns text = Inr (Num x, Some [c])"
proof -
  from search_SomeD[OF assms] obtain k where "amountPattern1 (drop k text) = Some m" by blast
  from amountPattern1_SomeD[OF this] obtain c r d ds where
    m: "m = [[c], d # ds]" and c: "isSign c" and d: "isDigit d" by blast
  from c have g: "group m 1 = Some [43] \<or> group m 1 = Some [45]"
    by (auto simp: m group_def isSign_def)
  from amount_signed[OF c d, of ds] obtain x where
    "(case group m 2 of Some g \<Rightarrow> Inr (parseFloat (replace_comma g), group m 1)
       | None \<Rightarrow> Inl TypeError) = Inr (Num x, Some [c])"
    unfolding m by blast
  with assms g have "amountLoop amountPatterns text = Inr (Num x, Some [c])"
    by (auto simp: amountPatterns_def)
  with m c show ?thesis by blast
qed

lemma parseTransaction_signed:
  assumes "text = pre @ suf" and "signedNumber suf"
    and "\<forall>k<length pre. \<not> signedNumber (drop k pre @ suf)"
  shows "\<exists>r. parseTransaction host text = Inr r \<and> txtype r = (if hd suf = 43 then Income else Expense)"
proof -
  from assms(2) obtain m where m: "amountPattern1 suf = Some m"
    by (auto simp: signedNumber_pattern)
  from assms(3) have "\<forall>k<length pre. amountPattern1 (drop k pre @ suf) = None"
    by (simp add: signedNumber_pattern)
  from search_append[OF m this] assms(1) have s: "search amountPattern1 text = Some m" by simp
  from amountLoop_signed[OF s] obtain x c cap where
    mm: "m = [[c], cap]" and c: "isSign c"
    and al: "amountLoop amountPatterns text = Inr (Num x, Some [c])" by blast
  from amountPattern1_SomeD[OF m] mm have "hd suf = c" by auto
  with c have ty: "classifyType (Some [c]) lt = (if hd suf = 43 then Income else Expense)" for lt
    by (auto simp: classifyType_def isSign_def)
  from al ty show ?thesis by (simp add: parseTransaction_def Let_def)
qed

lemma parseWithRules_type:
  "\<exists>r. parseWithRules env text = Inr r
     \<and> txtype r = (if some_included incomeKeywordsAI (toLowerCase env text) then Income else Expense)"
  using parseWithRules_eq[of env "text"] by (auto simp: typeAI_def)

subsection \<open>The validator on valid input\<close>

lemma isoDate_nonempty: "isoDate d \<Longrightarrow> d \<noteq> []"
  by (auto simp: isoDate_def)

lemma Math_abs_nonneg: "nonneg a \<Longrightarrow> Math_abs a = a"
  by (cases a) auto

lemma find_exists: "x \<in> set xs \<Longrightarrow> P x \<Longrightarrow> \<exists>y. find P xs = Some y \<and> y \<in> set xs \<and> P y"
  by (induction xs) auto

lemma find_split:
  "find P xs = Some x \<Longrightarrow> \<exists>pre post. xs = pre @ x # post \<and> P x \<and> (\<forall>y\<in>set pre. \<not> P y)"
proof (induction xs)
  case Nil
  then show ?case by simp
next
  case (Cons a xs)
  show ?case
  proof (cases "P a")
    case True
    with Cons.prems have "a = x" by simp
    with True have "a # xs = [] @ x # xs \<and> P x \<and> (\<forall>y\<in>set []. \<not> P y)" by simp
    then show ?thesis by blast
  next
    case False
    with Cons.prems have "find P xs = Some x" by simp
    from Cons.IH[OF this] obtain pre post where
      "xs = pre @ x # post" "P x" "\<forall>y\<in>set pre. \<not> P y" by blast
    with False have "a # xs = (a # pre) @ x # post \<and> P x \<and> (\<forall>y\<in>set (a # pre). \<not> P y)" by simp
    then show ?thesis by blast
  qed
qed

lemma validate_exact:
  assumes "c \<in> set (getCategories env)"
    and "toLowerCase env (dbname c) = toLowerCase env (category parsed)"
  shows "\<exists>c0\<in>set (getCategories env). toLowerCase env (dbname c0) = toLowerCase env (category parsed)
           \<and> category (validateAndEnrich env parsed) = dbname c0"
proof -
  from find_exists[of c "getCategories env" "\<lambda>c. toLowerCase env (dbname c) = toLowerCase env (category parsed)"] assms
  obtain c0 where "find (\<lambda>c. toLowerCase env (dbname c) = toLowerCase env (category parsed)) (getCategories env) = Some c0"
    "c0 \<in> set (getCategories env)" "toLowerCase env (dbname c0) = toLowerCase env (category parsed)"
    by blast
  then show ?thesis by (auto simp: validateAndEnrich_def Let_def)
qed

lemma categoryList_take:
  "categoryList env = join (S '', '') (map dbname (take 15 (getCategories env)))"
  by (simp add: categoryList_def take_map)

subsection \<open>The query pipeline\<close>

lemma spendingAnswer_nonempty: "spendingAnswer env query = Inr r \<Longrightarrow> r \<noteq> []"
  by (auto simp: spendingAnswer_def Let_def S_def split: sum.splits if_splits)

lemma incomeAnswer_nonempty: "incomeAnswer env = Inr r \<Longrightarrow> r \<noteq> []"
  by (auto simp: incomeAnswer_def S_def split: sum.splits)

lemma balanceAnswer_nonempty: "balanceAnswer env = Inr r \<Longrightarrow> r \<noteq> []"
  by (auto simp: balanceAnswer_def Let_def S_def split: sum.splits)

lemma budgetAnswer_nonempty: "budgetAnswer env = Inr r \<Longrightarrow> r \<noteq> []"
  by (auto simp: budgetAnswer_def Let_def S_def split: sum.splits if_splits)

lemma savingsAnswer_nonempty: "savingsAnswer env = Inr r \<Longrightarrow> r \<noteq> []"
  by (auto simp: savingsAnswer_def Let_def S_def split: sum.splits if_splits)

lemma summaryAnswer_nonempty: "summaryAnswer env = Inr r \<Longrightarrow> r \<noteq> []"
  by (auto simp: summaryAnswer_def Let_def CHART_def split: sum.splits)

lemma map_sum_Some_Inr: "map_sum id Some x = Inr (Some r) \<Longrightarrow> x = Inr r"
  by (cases x) auto

lemma handleLocalQuery_nonempty: "handleLocalQuery env query = Inr (Some r) \<Longrightarrow> r \<noteq> []"
  by (auto simp: handleLocalQuery_def split: if_splits
      dest!: map_sum_Some_Inr
      dest: spendingAnswer_nonempty incomeAnswer_nonempty balanceAnswer_nonempty
        budgetAnswer_nonempty savingsAnswer_nonempty summaryAnswer_nonempty)

text \<open>The balance answer throws when an account has the balance \<open>null\<close>.\<close>

lemma balanceLines_null:
  "a \<in> set accounts \<Longrightarrow> a_balance a = None \<Longrightarrow> balanceLines env accounts = Inl TypeError"
proof (induction accounts)
  case Nil
  then show ?case by simp
next
  case (Cons b accounts)
  show ?case
  proof (cases "a_balance b")
    case None
    then show ?thesis by simp
  next
    case (Some x)
    with Cons.prems have "a \<in> set accounts" by auto
    from Cons.IH[OF this Cons.prems(2)] Some show ?thesis by simp
  qed
qed

lemma balanceAnswer_null:
  "a \<in> set (getAccounts env) \<Longrightarrow> a_balance a = None \<Longrightarrow> balanceAnswer env = Inl TypeError"
  using balanceLines_null[of a "getAccounts env" env] by (simp add: balanceAnswer_def Let_def)

lemma helpMessage_nonempty: "helpMessage \<noteq> []"
  by (simp add: helpMessage_def S_def)

text \<open>The ways in which \<open>processQuery\<close> ends.\<close>

lemma processQuery_hit:
  assumes "cache (trim (toLowerCase env query)) = Some e" and "tLookup - timestamp e < CACHE_TTL"
  shows "processQuery env cache tLookup tStore query = Inr (response e, cache, [])"
  using assms by (simp add: processQuery_def Let_def)

lemma processQuery_throws:
  assumes "\<forall>e. cache (trim (toLowerCase env query)) = Some e \<longrightarrow> \<not> tLookup - timestamp e < CACHE_TTL"
    and "handleLocalQuery env (toLowerCase env query) = Inl err"
  shows "processQuery env cache tLookup tStore query = Inl err"
  using assms by (auto simp: processQuery_def Let_def split: option.splits)

lemma processQuery_local:
  assumes "\<forall>e. cache (trim (toLowerCase env query)) = Some e \<longrightarrow> \<not> tLookup - timestamp e < CACHE_TTL"
    and "handleLocalQuery env (toLowerCase env query) = Inr (Some r)"
  shows "processQuery env cache tLookup tStore query =
           Inr (r, cache(trim (toLowerCase env query) \<mapsto> \<lparr>response = r, timestamp = tStore\<rparr>),
                [HandleLocalQuery (toLowerCase env query)])"
  using assms handleLocalQuery_nonempty[OF assms(2)]
  by (auto simp: processQuery_def Let_def split: option.splits)

lemma processQuery_nocontext:
  assumes "\<forall>e. cache (trim (toLowerCase env query)) = Some e \<longrightarrow> \<not> tLookup - timestamp e < CACHE_TTL"
    and "handleLocalQuery env (toLowerCase env query) = Inr None"
    and "buildFinancialContext env = Inl err"
  shows "processQuery env cache tLookup tStore query =
           Inr (helpMessage, cache, [HandleLocalQuery (toLowerCase env query), BuildFinancialContext])"
  using assms by (auto simp: processQuery_def narrative_def Let_def split: option.splits)

lemma processQuery_narrative:
  assumes "\<forall>e. cache (trim (toLowerCase env query)) = Some e \<longrightarrow> \<not> tLookup - timestamp e < CACHE_TTL"
    and "handleLocalQuery env (toLowerCase env query) = Inr None"
    and "buildFinancialContext env = Inr context"
    and "generateText env (queryPrompt context query) = Inr ans"
  shows "processQuery env cache tLookup tStore query =
           Inr (trim ans,
                cache(trim (toLowerCase env query) \<mapsto> \<lparr>response = trim ans, timestamp = tStore\<rparr>),
                [HandleLocalQuery (toLowerCase env query), BuildFinancialContext,
                 GenerateText (queryPrompt context query)])"
  using assms by (auto simp: processQuery_def narrative_def Let_def split: option.splits)

lemma processQuery_failure:
  assumes "\<forall>e. cache (trim (toLowerCase env query)) = Some e \<longrightarrow> \<not> tLookup - timestamp e < CACHE_TTL"
    and "handleLocalQuery env (toLowerCase env query) = Inr None"
    and "buildFinancialContext env = Inr context"
    and "generateText env (queryPrompt context query) = Inl err"
  shows "processQuery env cache tLookup tStore query =
           Inr (helpMessage, cache,
                [HandleLocalQuery (toLowerCase env query), BuildFinancialContext,
                 GenerateText (queryPrompt context query)])"
  using assms by (auto simp: processQuery_def narrative_def Let_def split: option.splits)

lemma leftmost_signed:
  assumes "text = p @ s" and "signedNumber s"
  shows "\<exists>pre suf. text = pre @ suf \<and> signedNumber suf
           \<and> (\<forall>k<length pre. \<not> signedNumber (drop k pre @ suf))"
proof -
  define Q where "Q k = signedNumber (drop k text)" for k
  define k0 where "k0 = (LEAST k. Q k)"
  from assms have qp: "Q (length p)" by (simp add: Q_def)
  then have q0: "Q k0" unfolding k0_def by (rule LeastI)
  from qp have "k0 \<le> length p" unfolding k0_def by (rule Least_le)
  with assms(1) have le: "k0 \<le> length text" by simp
  have least: "\<not> Q k" if "k < k0" for k
    using that unfolding k0_def by (rule not_less_Least)
  have "text = take k0 text @ drop k0 text" by simp
  moreover from q0 have "signedNumber (drop k0 text)" by (simp add: Q_def)
  moreover have "\<forall>k<length (take k0 text). \<not> signedNumber (drop k (take k0 text) @ drop k0 text)"
  proof (intro allI impI)
    fix k assume k: "k < length (take k0 text)"
    with le have "k < k0" by simp
    have "drop k (take k0 text @ drop k0 text)
            = drop k (take k0 text) @ drop (k - length (take k0 text)) (drop k0 text)"
      by (rule drop_append)
    moreover from k have "k - length (take k0 text) = 0" by simp
    ultimately have "drop k (take k0 text) @ drop k0 text = drop k text" by simp
    with least[OF \<open>k < k0\<close>] show "\<not> signedNumber (drop k (take k0 text) @ drop k0 text)"
      by (simp add: Q_def)
  qed
  ultimately show ?thesis by blast
qed

section \<open>The claims\<close>

subsection \<open>C2: amounts are never negative\<close>

text \<open>
  C2. For every input text the parsed transaction has an amount that is a number and is
  not negative. The backend parser returns the absolute value of the number it matched;
  the desktop rule parser matches an unsigned number; the validator replaces a
  model-sourced amount by its absolute value; so the desktop pipeline, whichever of the
  two results it returns, returns a non-negative amount. Both parsers return for every
  text.
\<close>

theorem C2_amount_nonneg:
  "(\<exists>r amt sg. amountLoop amountPatterns text = Inr (amt, sg) \<and> parseTransaction host text = Inr r
       \<and> amount r = Math_abs amt \<and> nonneg (amount r))
   \<and> (\<exists>r. parseWithRules env text = Inr r \<and> nonneg (amount r))
   \<and> amount (validateAndEnrich env parsed) = Math_abs (amount parsed)
   \<and> (\<exists>r calls. AIService_parseTransaction env text = Inr (r, calls) \<and> nonneg (amount r))"
proof (intro conjI)
  from parseTransaction_eq[of "text" host]
  show "\<exists>r amt sg. amountLoop amountPatterns text = Inr (amt, sg) \<and> parseTransaction host text = Inr r
       \<and> amount r = Math_abs amt \<and> nonneg (amount r)"
    by (auto simp: Let_def)
next
  from parseWithRules_eq[of env "text"] obtain rb where
    rb: "parseWithRules env text = Inr rb" "nonneg (amount rb)" by auto
  then show "\<exists>r. parseWithRules env text = Inr r \<and> nonneg (amount r)" by blast
  have v: "nonneg (amount (validateAndEnrich env (fromModel obj)))" for obj
    by (simp add: validateAndEnrich_def fromModel_def Let_def)
  from pipeline_cases[OF rb(1)] rb(2) v
  show "\<exists>r calls. AIService_parseTransaction env text = Inr (r, calls) \<and> nonneg (amount r)"
    by auto
next
  show "amount (validateAndEnrich env parsed) = Math_abs (amount parsed)"
    by (simp add: validateAndEnrich_def Let_def)
qed

theorem C2_amount_nonneg_witness:
  "map_sum id amount (parseTransaction exampleHost (S ''-45, groceries, Lidl'')) = Inr (Num 45)
   \<and> map_sum id (amount \<circ> fst) (AIService_parseTransaction exampleEnv (S ''hello 7'')) = Inr (Num 12)
   \<and> amount (validateAndEnrich exampleEnv (fromModel exampleObject)) = Math_abs (Num (- 12))"
proof -
  have a: "map_sum id amount (parseTransaction exampleHost (S ''-45, groceries, Lidl'')) = Inr (Num 45)"
    by code_simp
  have b: "map_sum id (amount \<circ> fst) (AIService_parseTransaction exampleEnv (S ''hello 7'')) = Inr (Num 12)"
    by code_simp
  have c: "amount (fromModel exampleObject) = Num (- 12)"
    by (simp add: fromModel_def exampleObject_def)
  from C2_amount_nonneg[of "S ''-45, groceries, Lidl''" exampleHost exampleEnv "fromModel exampleObject"]
  have "amount (validateAndEnrich exampleEnv (fromModel exampleObject)) = Math_abs (amount (fromModel exampleObject))"
    by blast
  with a b c show ?thesis by simp
qed

subsection \<open>C3: the confidence threshold\<close>

text \<open>
  C3. For every input text the rule-based parse returns, and: when its confidence is at
  least 0.75 the pipeline returns that parse and makes no call; when it is below 0.75 the
  pipeline makes exactly one structured-extraction call, with the prompt built from the
  text, and no second one.
\<close>

theorem C3_threshold:
  "\<exists>rulesBased. parseWithRules env text = Inr rulesBased \<and>
     (if confidence rulesBased \<ge> 0.75
      then AIService_parseTransaction env text = Inr (rulesBased, [])
      else \<exists>r. AIService_parseTransaction env text = Inr (r, [GenerateObject (parsePrompt env text)]))"
proof -
  from parseWithRules_eq[of env "text"] obtain rb where rb: "parseWithRules env text = Inr rb"
    by blast
  then show ?thesis
    by (auto simp: AIService_parseTransaction_def split: sum.splits)
qed

theorem C3_threshold_witness:
  "map_sum id confidence (parseWithRules exampleEnv (S ''lunch 12'')) = Inr 0.8
   \<and> map_sum id snd (AIService_parseTransaction exampleEnv (S ''lunch 12'')) = Inr []
   \<and> map_sum id confidence (parseWithRules exampleEnv (S ''hello 7'')) = Inr 0.5
   \<and> map_sum id snd (AIService_parseTransaction exampleEnv (S ''hello 7''))
       = Inr [GenerateObject (parsePrompt exampleEnv (S ''hello 7''))]"
proof -
  have a: "map_sum id confidence (parseWithRules exampleEnv (S ''lunch 12'')) = Inr 0.8"
    by code_simp
  have b: "map_sum id confidence (parseWithRules exampleEnv (S ''hello 7'')) = Inr 0.5"
    by code_simp
  from C3_threshold[of exampleEnv "S ''lunch 12''"] a
  have c: "map_sum id snd (AIService_parseTransaction exampleEnv (S ''lunch 12'')) = Inr []"
    by (auto split: if_splits)
  from C3_threshold[of exampleEnv "S ''hello 7''"] b
  have d: "map_sum id snd (AIService_parseTransaction exampleEnv (S ''hello 7''))
       = Inr [GenerateObject (parsePrompt exampleEnv (S ''hello 7''))]"
    by (auto split: if_splits)
  from a b c d show ?thesis by blast
qed

subsection \<open>C4: a failed escalation falls back to the rules\<close>

text \<open>
  C4. If the structured-extraction call throws (the SDK also throws when the model's answer
  does not fit the schema), the pipeline returns exactly the rule-based parse: the result is
  a value, not the exception.
\<close>

theorem C4_fallback:
  assumes "generateObject env (parsePrompt env text) = Inl e"
  shows "\<exists>rulesBased calls. parseWithRules env text = Inr rulesBased
           \<and> AIService_parseTransaction env text = Inr (rulesBased, calls)"
proof -
  from parseWithRules_eq[of env "text"] obtain rb where rb: "parseWithRules env text = Inr rb"
    by blast
  with assms show ?thesis
    by (auto simp: AIService_parseTransaction_def split: sum.splits)
qed

theorem C4_fallback_witness:
  "generateObject failingEnv (parsePrompt failingEnv (S ''hello 7''))
     = Inl (Thrown (S ''connection refused''))
   \<and> map_sum id snd (AIService_parseTransaction failingEnv (S ''hello 7''))
       = Inr [GenerateObject (parsePrompt failingEnv (S ''hello 7''))]
   \<and> map_sum id fst (AIService_parseTransaction failingEnv (S ''hello 7''))
       = parseWithRules failingEnv (S ''hello 7'')"
proof -
  have a: "generateObject failingEnv (parsePrompt failingEnv (S ''hello 7''))
     = Inl (Thrown (S ''connection refused''))"
    by (simp add: failingEnv_def exampleEnv_def)
  have b: "map_sum id confidence (parseWithRules failingEnv (S ''hello 7'')) = Inr 0.5"
    by code_simp
  from C4_fallback[OF a] obtain rb calls where
    rb: "parseWithRules failingEnv (S ''hello 7'') = Inr rb"
    and r: "AIService_parseTransaction failingEnv (S ''hello 7'') = Inr (rb, calls)"
    by blast
  from rb b have "confidence rb = 0.5" by simp
  with rb r a have "calls = [GenerateObject (parsePrompt failingEnv (S ''hello 7''))]"
    by (auto simp: AIService_parseTransaction_def split: if_splits)
  with a rb r show ?thesis by simp
qed

subsection \<open>C1: the category field is controlled\<close>

text \<open>
  C1, as amended. The backend parser always returns a category that is the name of a
  catalog category of the transaction's type (the two fallback categories \<open>Other\<close> and
  \<open>Other Income\<close> are catalog categories of their types). In the desktop service the type
  is not compared everywhere: the validator returns the name of a catalog category, of
  whatever type, or the fallback name of the transaction's type; the rule parser returns a
  category name of its built-in keyword table, or the fallback name of the type, or the
  name of a catalog category of the type; so the pipeline returns a catalog name, a name of
  the built-in table or the type's fallback name, and no other string.
\<close>

theorem C1_category_controlled:
  "(\<exists>r. parseTransaction host text = Inr r
        \<and> (\<exists>c\<in>set DEFAULT_CATEGORIES. cname c = category r \<and> ctype c = txtype r))
   \<and> (category (validateAndEnrich env parsed) \<in> dbname ` set (getCategories env)
        \<or> category (validateAndEnrich env parsed) = fallbackName (txtype (validateAndEnrich env parsed)))
   \<and> (\<exists>r. parseWithRules env text = Inr r
        \<and> (category r \<in> fst ` set categoryKeywords \<or> category r = fallbackName (txtype r)
             \<or> (\<exists>c\<in>set (getCategories env). dbname c = category r \<and> dbtype c = txtype r)))
   \<and> (\<exists>r calls. AIService_parseTransaction env text = Inr (r, calls)
        \<and> (category r \<in> dbname ` set (getCategories env) \<or> category r \<in> fst ` set categoryKeywords
             \<or> category r = fallbackName (txtype r)))"
proof (intro conjI)
  from parseTransaction_category[of host "text"]
  show "\<exists>r. parseTransaction host text = Inr r
        \<and> (\<exists>c\<in>set DEFAULT_CATEGORIES. cname c = category r \<and> ctype c = txtype r)"
    by (auto split: option.splits)
next
  from validate_category[of env parsed]
  show "category (validateAndEnrich env parsed) \<in> dbname ` set (getCategories env)
        \<or> category (validateAndEnrich env parsed) = fallbackName (txtype (validateAndEnrich env parsed))"
    by (simp add: validate_txtype)
next
  from parseWithRules_category_weak[of env "text"] obtain rb where
    rb: "parseWithRules env text = Inr rb"
    and c: "category rb \<in> fst ` set categoryKeywords \<or> category rb = fallbackName (txtype rb)
             \<or> (\<exists>c\<in>set (getCategories env). dbname c = category rb \<and> dbtype c = txtype rb)"
    by blast
  then show "\<exists>r. parseWithRules env text = Inr r
        \<and> (category r \<in> fst ` set categoryKeywords \<or> category r = fallbackName (txtype r)
             \<or> (\<exists>c\<in>set (getCategories env). dbname c = category r \<and> dbtype c = txtype r))"
    by blast
  from c have c': "category rb \<in> dbname ` set (getCategories env) \<or> category rb \<in> fst ` set categoryKeywords
             \<or> category rb = fallbackName (txtype rb)"
    by (metis imageI)
  have v: "category (validateAndEnrich env (fromModel obj)) \<in> dbname ` set (getCategories env)
        \<or> category (validateAndEnrich env (fromModel obj)) = fallbackName (txtype (validateAndEnrich env (fromModel obj)))"
    for obj
    using validate_category[of env "fromModel obj"] by (simp add: validate_txtype)
  from pipeline_cases[OF rb] c' v
  show "\<exists>r calls. AIService_parseTransaction env text = Inr (r, calls)
        \<and> (category r \<in> dbname ` set (getCategories env) \<or> category r \<in> fst ` set categoryKeywords
             \<or> category r = fallbackName (txtype r))"
    by (elim disjE exE conjE) (simp, blast)+
qed

theorem C1_category_controlled_witness:
  "map_sum id category (parseTransaction exampleHost (S ''+3000, salary'')) = Inr (S ''Salary'')
   \<and> map_sum id txtype (parseTransaction exampleHost (S ''+3000, salary'')) = Inr Income
   \<and> list_ex (\<lambda>c. cname c = S ''Salary'' \<and> ctype c = Income) DEFAULT_CATEGORIES
   \<and> map_sum id (category \<circ> fst) (AIService_parseTransaction exampleEnv (S ''hello 7'')) = Inr (S ''Gas'')
   \<and> S ''Gas'' \<in> dbname ` set (getCategories exampleEnv)"
proof -
  let ?t1 = "S ''+3000, salary''" and ?t2 = "S ''hello 7''"
  have a: "map_sum id category (parseTransaction exampleHost ?t1) = Inr (S ''Salary'')" by code_simp
  have b: "map_sum id txtype (parseTransaction exampleHost ?t1) = Inr Income" by code_simp
  have c: "map_sum id (category \<circ> fst) (AIService_parseTransaction exampleEnv ?t2) = Inr (S ''Gas'')"
    by code_simp
  have d: "map_sum id (txtype \<circ> fst) (AIService_parseTransaction exampleEnv ?t2) = Inr Expense"
    by code_simp
  have e: "S ''Gas'' \<notin> fst ` set categoryKeywords" by code_simp
  have f: "S ''Gas'' \<noteq> fallbackName Expense" by code_simp
  from C1_category_controlled[of exampleHost ?t1 exampleEnv exampleParsed] a b have "\<exists>c\<in>set DEFAULT_CATEGORIES. cname c = S ''Salary'' \<and> ctype c = Income"
    by auto
  then have g: "list_ex (\<lambda>c. cname c = S ''Salary'' \<and> ctype c = Income) DEFAULT_CATEGORIES"
    by (simp add: list_ex_iff)
  from C1_category_controlled[of exampleHost ?t2 exampleEnv exampleParsed]
  obtain r calls where r: "AIService_parseTransaction exampleEnv ?t2 = Inr (r, calls)"
    and k: "category r \<in> dbname ` set (getCategories exampleEnv)
             \<or> category r \<in> fst ` set categoryKeywords \<or> category r = fallbackName (txtype r)"
    by blast
  from r c d have "category r = S ''Gas''" "txtype r = Expense" by simp_all
  with k e f have h: "S ''Gas'' \<in> dbname ` set (getCategories exampleEnv)"
    by simp
  from a b c g h show ?thesis by blast
qed

text \<open>
  The claim as the specification words it fails in the desktop pipeline, in two ways.
  "lunch 12 salary" is classified as income by the keyword \<open>salary\<close> and as \<open>Dining Out\<close>
  by the keyword \<open>lunch\<close>; the confidence 0.8 returns this rule-based result at once, and
  the seeded catalog holds \<open>Dining Out\<close> as an expense category only. "uber 15" gets the
  category \<open>Transportation\<close> of the built-in keyword table, which is the name of no category
  of the seeded catalog at all.
\<close>

theorem C1_counterexample:
  "map_sum id (category \<circ> fst) (AIService_parseTransaction exampleEnv (S ''lunch 12 salary'')) = Inr (S ''Dining Out'')
   \<and> map_sum id (txtype \<circ> fst) (AIService_parseTransaction exampleEnv (S ''lunch 12 salary'')) = Inr Income
   \<and> map_sum id (categoryOfType (getCategories exampleEnv) \<circ> fst)
        (AIService_parseTransaction exampleEnv (S ''lunch 12 salary'')) = Inr False
   \<and> map_sum id (category \<circ> fst) (AIService_parseTransaction exampleEnv (S ''uber 15'')) = Inr (S ''Transportation'')
   \<and> \<not> list_ex (\<lambda>c. dbname c = S ''Transportation'') (getCategories exampleEnv)
   \<and> map_sum id (categoryOfType (getCategories exampleEnv) \<circ> fst)
        (AIService_parseTransaction exampleEnv (S ''uber 15'')) = Inr False"
proof -
  have "map_sum id (category \<circ> fst) (AIService_parseTransaction exampleEnv (S ''lunch 12 salary'')) = Inr (S ''Dining Out'')"
    by code_simp
  moreover have "map_sum id (txtype \<circ> fst) (AIService_parseTransaction exampleEnv (S ''lunch 12 salary'')) = Inr Income"
    by code_simp
  moreover have "map_sum id (categoryOfType (getCategories exampleEnv) \<circ> fst)
        (AIService_parseTransaction exampleEnv (S ''lunch 12 salary'')) = Inr False"
    by code_simp
  moreover have "map_sum id (category \<circ> fst) (AIService_parseTransaction exampleEnv (S ''uber 15'')) = Inr (S ''Transportation'')"
    by code_simp
  moreover have "\<not> list_ex (\<lambda>c. dbname c = S ''Transportation'') (getCategories exampleEnv)"
    by code_simp
  moreover have "map_sum id (categoryOfType (getCategories exampleEnv) \<circ> fst)
        (AIService_parseTransaction exampleEnv (S ''uber 15'')) = Inr False"
    by code_simp
  ultimately show ?thesis by blast
qed

subsection \<open>C8: the confidence is the category matcher's\<close>

text \<open>
  C8, as amended. In the backend parser the first keyword, in catalog order and keyword
  order among the categories of the transaction's type, that the lower-cased text includes
  selects its category with confidence 0.85; with no such keyword the fallback category of
  the type is selected with confidence 0.5. In the desktop rule parser the keywords are
  those of a built-in table; the first hit selects its category (spelled as the table
  spells it, up to letter case) with confidence 0.8, and without a hit the fallback name
  with confidence 0.5. In both the returned confidence is this value: nothing else of the
  parse changes it.
\<close>

theorem C8_category_confidence:
  "(\<exists>r. parseTransaction host text = Inr r \<and>
      (case firstKeywordHit (map (\<lambda>c. (c, ckeywords c)) (categoriesForType (txtype r)))
              (trim (toLowerCase host text)) of
         Some (c, kw) \<Rightarrow> category r = cname c \<and> confidence r = 0.85
       | None \<Rightarrow> category r = fallbackName (txtype r) \<and> confidence r = 0.5))
   \<and> (\<exists>r. parseWithRules env text = Inr r \<and>
      (case firstKeywordHit categoryKeywords (toLowerCase env text) of
         Some (cat, kw) \<Rightarrow> toLowerCase env (category r) = toLowerCase env cat \<and> confidence r = 0.8
       | None \<Rightarrow> toLowerCase env (category r) = toLowerCase env (fallbackName (txtype r))
                 \<and> confidence r = 0.5))"
proof
  from parseTransaction_category[of host "text"] obtain r where
    r: "parseTransaction host text = Inr r"
       "case matchCategory (categoriesForType (txtype r)) (trim (toLowerCase host text)) of
          Some c \<Rightarrow> c \<in> set DEFAULT_CATEGORIES \<and> ctype c = txtype r \<and> category r = cname c
                    \<and> confidence r = 0.85
        | None \<Rightarrow> category r = fallbackName (txtype r) \<and> confidence r = 0.5
                  \<and> (\<exists>c\<in>set DEFAULT_CATEGORIES. cname c = category r \<and> ctype c = txtype r)"
    by blast
  from r(2) have
    "case firstKeywordHit (map (\<lambda>c. (c, ckeywords c)) (categoriesForType (txtype r)))
              (trim (toLowerCase host text)) of
         Some (c, kw) \<Rightarrow> category r = cname c \<and> confidence r = 0.85
       | None \<Rightarrow> category r = fallbackName (txtype r) \<and> confidence r = 0.5"
    by (auto simp: matchCategory_first split: option.splits)
  with r(1) show "\<exists>r. parseTransaction host text = Inr r \<and>
      (case firstKeywordHit (map (\<lambda>c. (c, ckeywords c)) (categoriesForType (txtype r)))
              (trim (toLowerCase host text)) of
         Some (c, kw) \<Rightarrow> category r = cname c \<and> confidence r = 0.85
       | None \<Rightarrow> category r = fallbackName (txtype r) \<and> confidence r = 0.5)"
    by blast
next
  from parseWithRules_category[of env "text"]
  show "\<exists>r. parseWithRules env text = Inr r \<and>
      (case firstKeywordHit categoryKeywords (toLowerCase env text) of
         Some (cat, kw) \<Rightarrow> toLowerCase env (category r) = toLowerCase env cat \<and> confidence r = 0.8
       | None \<Rightarrow> toLowerCase env (category r) = toLowerCase env (fallbackName (txtype r))
                 \<and> confidence r = 0.5)"
    by (auto split: option.splits)
qed

theorem C8_category_confidence_witness:
  "map_sum id category (parseTransaction exampleHost (S ''lunch 12.50 at cafe'')) = Inr (S ''Dining Out'')
   \<and> map_sum id confidence (parseTransaction exampleHost (S ''lunch 12.50 at cafe'')) = Inr 0.85
   \<and> map_sum id category (parseTransaction exampleHost (S ''hello'')) = Inr (S ''Other'')
   \<and> map_sum id confidence (parseTransaction exampleHost (S ''hello'')) = Inr 0.5
   \<and> map_sum id confidence (parseWithRules exampleEnv (S ''lunch 12'')) = Inr 0.8"
proof -
  let ?t1 = "S ''lunch 12.50 at cafe''" and ?t2 = "S ''hello''" and ?t3 = "S ''lunch 12''"
  have ty1: "map_sum id txtype (parseTransaction exampleHost ?t1) = Inr Expense" by code_simp
  have ty2: "map_sum id txtype (parseTransaction exampleHost ?t2) = Inr Expense" by code_simp
  have h1: "map_option (\<lambda>(c, kw). (cname c, kw))
              (firstKeywordHit (map (\<lambda>c. (c, ckeywords c)) (categoriesForType Expense))
                 (trim (toLowerCase exampleHost ?t1))) = Some (S ''Dining Out'', S ''lunch'')"
    by code_simp
  have h2: "firstKeywordHit (map (\<lambda>c. (c, ckeywords c)) (categoriesForType Expense))
                 (trim (toLowerCase exampleHost ?t2)) = None"
    by code_simp
  have h3: "map_option fst (firstKeywordHit categoryKeywords (toLowerCase exampleEnv ?t3)) = Some (S ''Dining Out'')"
    by code_simp
  have f: "fallbackName Expense = S ''Other''" by (simp add: fallbackName_def)
  from C8_category_confidence[of exampleHost ?t1 exampleEnv] ty1 h1
  have a: "map_sum id category (parseTransaction exampleHost ?t1) = Inr (S ''Dining Out'')
       \<and> map_sum id confidence (parseTransaction exampleHost ?t1) = Inr 0.85"
    by (auto split: option.splits)
  from C8_category_confidence[of exampleHost ?t3 exampleEnv] h3
  have c: "map_sum id confidence (parseWithRules exampleEnv ?t3) = Inr 0.8"
    by (auto split: option.splits)
  from C8_category_confidence[of exampleHost ?t2 exampleEnv] ty2 h2 f
  have b: "map_sum id category (parseTransaction exampleHost ?t2) = Inr (S ''Other'')
       \<and> map_sum id confidence (parseTransaction exampleHost ?t2) = Inr 0.5"
    by (auto split: option.splits)
  from a b c show ?thesis by blast
qed

text \<open>
  The claim as the specification words it fails for the desktop rule parser: a keyword hit
  there carries the confidence 0.8, not 0.85.
\<close>

theorem C8_counterexample:
  "map_option fst (firstKeywordHit categoryKeywords (toLowerCase exampleEnv (S ''lunch 12''))) = Some (S ''Dining Out'')
   \<and> map_sum id (confidence \<circ> fst) (AIService_parseTransaction exampleEnv (S ''lunch 12'')) = Inr 0.8
   \<and> (0.8 :: real) \<noteq> 0.85"
proof -
  have "map_option fst (firstKeywordHit categoryKeywords (toLowerCase exampleEnv (S ''lunch 12''))) = Some (S ''Dining Out'')"
    by code_simp
  moreover have "map_sum id (confidence \<circ> fst) (AIService_parseTransaction exampleEnv (S ''lunch 12'')) = Inr 0.8"
    by code_simp
  ultimately show ?thesis by simp
qed

subsection \<open>C5: an explicit sign decides the direction\<close>

text \<open>
  C5, as amended. In the backend parser, for every input that contains a sign adjacent to a
  number, the type is the direction of the leftmost such sign (\<open>+\<close> income, \<open>-\<close>
  expense), whatever keywords the text holds: the text splits as \<open>pre @ suf\<close> where
  \<open>suf\<close> starts with a signed number, no signed number starts earlier, and the sign at
  the head of \<open>suf\<close> decides. The desktop rule parser reads no sign: its type is income
  exactly when the lower-cased text includes one of its income keywords, and expense
  otherwise.
\<close>

theorem C5_explicit_sign:
  assumes "text = p @ s" and "signedNumber s"
  shows "(\<exists>pre suf. text = pre @ suf \<and> signedNumber suf
            \<and> (\<forall>k<length pre. \<not> signedNumber (drop k pre @ suf))
            \<and> (\<exists>r. parseTransaction host text = Inr r
                  \<and> txtype r = (if hd suf = 43 then Income else Expense)))
       \<and> (\<exists>r. parseWithRules env text = Inr r
            \<and> txtype r = (if some_included incomeKeywordsAI (toLowerCase env text) then Income
                           else Expense))"
proof
  from leftmost_signed[OF assms] obtain pre suf where
    l: "text = pre @ suf" "signedNumber suf" "\<forall>k<length pre. \<not> signedNumber (drop k pre @ suf)"
    by blast
  from parseTransaction_signed[OF l, of host] l
  show "\<exists>pre suf. text = pre @ suf \<and> signedNumber suf
            \<and> (\<forall>k<length pre. \<not> signedNumber (drop k pre @ suf))
            \<and> (\<exists>r. parseTransaction host text = Inr r
                  \<and> txtype r = (if hd suf = 43 then Income else Expense))"
    by blast
next
  from parseWithRules_type[of env "text"]
  show "\<exists>r. parseWithRules env text = Inr r
            \<and> txtype r = (if some_included incomeKeywordsAI (toLowerCase env text) then Income
                           else Expense)" .
qed

theorem C5_explicit_sign_witness:
  "S ''lunch -12 salary'' = S ''lunch '' @ S ''-12 salary''
   \<and> signedNumber (S ''-12 salary'')
   \<and> some_included incomeKeywords (trim (toLowerCase exampleHost (S ''lunch -12 salary'')))
   \<and> map_sum id txtype (parseTransaction exampleHost (S ''lunch -12 salary'')) = Inr Expense
   \<and> map_sum id txtype (parseWithRules exampleEnv (S ''lunch -12 salary'')) = Inr Income"
proof -
  let ?t = "S ''lunch -12 salary''"
  have a: "?t = S ''lunch '' @ S ''-12 salary''" by (simp add: S_def)
  have "amountPattern1 (S ''-12 salary'') \<noteq> None" by code_simp
  then have b: "signedNumber (S ''-12 salary'')" by (simp add: signedNumber_pattern)
  have signs: "\<forall>c\<in>set ?t. isSign c \<longrightarrow> c = 45" by code_simp
  have e: "some_included incomeKeywords (trim (toLowerCase exampleHost ?t))" by code_simp
  have f: "some_included incomeKeywordsAI (toLowerCase exampleEnv ?t)" by code_simp
  from C5_explicit_sign[OF a b, of exampleHost exampleEnv] obtain pre suf r r'
    where d: "?t = pre @ suf" "signedNumber suf"
      and r: "parseTransaction exampleHost ?t = Inr r"
             "txtype r = (if hd suf = 43 then Income else Expense)"
      and r': "parseWithRules exampleEnv ?t = Inr r'"
              "txtype r' = (if some_included incomeKeywordsAI (toLowerCase exampleEnv ?t) then Income else Expense)"
    by blast
  from d(2) obtain c rest where "suf = c # rest" "isSign c"
    unfolding signedNumber_def by blast
  with d(1) signs have "hd suf = 45" by auto
  with r r' f have "map_sum id txtype (parseTransaction exampleHost ?t) = Inr Expense
      \<and> map_sum id txtype (parseWithRules exampleEnv ?t) = Inr Income"
    by simp
  with a b e show ?thesis by blast
qed

text \<open>
  The claim as the specification words it fails for the desktop rule parser: in
  "+30 spent on gas" the plus sign stands before the number, and the parse, which the
  pipeline returns as it is, is an expense.
\<close>

theorem C5_counterexample:
  "signedNumber (S ''+30 spent on gas'')
   \<and> hd (S ''+30 spent on gas'') = 43
   \<and> map_sum id txtype (parseWithRules exampleEnv (S ''+30 spent on gas'')) = Inr Expense
   \<and> map_sum id (txtype \<circ> fst) (AIService_parseTransaction exampleEnv (S ''+30 spent on gas'')) = Inr Expense"
proof -
  have "amountPattern1 (S ''+30 spent on gas'') \<noteq> None" by code_simp
  then have "signedNumber (S ''+30 spent on gas'')" by (simp add: signedNumber_pattern)
  moreover have "hd (S ''+30 spent on gas'') = 43" by (simp add: S_def)
  moreover have "map_sum id txtype (parseWithRules exampleEnv (S ''+30 spent on gas'')) = Inr Expense"
    by code_simp
  moreover have "map_sum id (txtype \<circ> fst) (AIService_parseTransaction exampleEnv (S ''+30 spent on gas'')) = Inr Expense"
    by code_simp
  ultimately show ?thesis by blast
qed

subsection \<open>C9: the validator leaves valid input alone\<close>

text \<open>
  C9, as amended. Applied to an object whose category is the name of a catalog category,
  whose amount is a non-negative number and whose date has the strict form \<open>YYYY-MM-DD\<close>,
  the validator leaves the amount and the date unchanged, and returns as category the name
  of the first category of the catalog, in the order in which the catalog is returned,
  whose lower-cased name equals the lower-cased category. So the category is unchanged
  exactly when that first category bears the given name itself: always when no two names
  of the catalog differ by letter case only, and otherwise when the given spelling comes
  first in the catalog.
\<close>

theorem C9_validator_noop:
  assumes "c \<in> set (getCategories env)" and "category parsed = dbname c"
    and "nonneg (amount parsed)" and "isoDate (date parsed)"
  shows "amount (validateAndEnrich env parsed) = amount parsed
       \<and> date (validateAndEnrich env parsed) = date parsed
       \<and> (\<exists>pre c0 post. getCategories env = pre @ c0 # post
             \<and> toLowerCase env (dbname c0) = toLowerCase env (category parsed)
             \<and> (\<forall>c'\<in>set pre. toLowerCase env (dbname c') \<noteq> toLowerCase env (category parsed))
             \<and> category (validateAndEnrich env parsed) = dbname c0)
       \<and> ((category (validateAndEnrich env parsed) = category parsed)
            = (map_option dbname
                 (find (\<lambda>c'. toLowerCase env (dbname c') = toLowerCase env (category parsed))
                    (getCategories env)) = Some (category parsed)))"
proof -
  let ?P = "\<lambda>c'. toLowerCase env (dbname c') = toLowerCase env (category parsed)"
  from assms(1,2) have "?P c" by simp
  from find_exists[of c "getCategories env" ?P, OF assms(1) this] obtain c0 where
    c0: "find ?P (getCategories env) = Some c0" by blast
  then have v: "category (validateAndEnrich env parsed) = dbname c0"
    by (simp add: validateAndEnrich_def Let_def)
  from find_split[OF c0] obtain pre post where
    "getCategories env = pre @ c0 # post" "?P c0" "\<forall>c'\<in>set pre. \<not> ?P c'"
    by blast
  with v have first: "\<exists>pre c0 post. getCategories env = pre @ c0 # post
             \<and> toLowerCase env (dbname c0) = toLowerCase env (category parsed)
             \<and> (\<forall>c'\<in>set pre. toLowerCase env (dbname c') \<noteq> toLowerCase env (category parsed))
             \<and> category (validateAndEnrich env parsed) = dbname c0"
    by blast
  from Math_abs_nonneg[OF assms(3)]
  have a: "amount (validateAndEnrich env parsed) = amount parsed"
    by (simp add: validateAndEnrich_def Let_def)
  from assms(4) isoDate_nonempty[OF assms(4)]
  have d: "date (validateAndEnrich env parsed) = date parsed"
    by (simp add: validateAndEnrich_def Let_def)
  from v c0 have i: "(category (validateAndEnrich env parsed) = category parsed)
            = (map_option dbname (find ?P (getCategories env)) = Some (category parsed))"
    by simp
  from a d first i show ?thesis by blast
qed

theorem C9_validator_noop_witness:
  "list_ex (\<lambda>c. dbname c = S ''Gas'') (getCategories twoGasEnv)
   \<and> list_ex (\<lambda>c. dbname c = S ''gas'') (getCategories twoGasEnv)
   \<and> nonneg (amount exampleParsed) \<and> isoDate (date exampleParsed)
   \<and> category (validateAndEnrich twoGasEnv (exampleParsed\<lparr>category := S ''Gas''\<rparr>)) = S ''Gas''
   \<and> amount (validateAndEnrich twoGasEnv (exampleParsed\<lparr>category := S ''Gas''\<rparr>)) = Num 5
   \<and> date (validateAndEnrich twoGasEnv (exampleParsed\<lparr>category := S ''Gas''\<rparr>)) = S ''2024-05-10''"
proof -
  let ?p = "exampleParsed\<lparr>category := S ''Gas''\<rparr>"
  let ?c = "mkDbCategory ''c10'' ''Gas'' Expense"
  have a: "?c \<in> set (getCategories twoGasEnv)"
    by (simp add: twoGasEnv_def exampleEnv_def)
  have b: "category ?p = dbname ?c" by (simp add: mkDbCategory_def)
  have d: "nonneg (amount ?p)" by (simp add: exampleParsed_def)
  have e: "isoDate (date ?p)" by code_simp
  have f: "amount ?p = Num 5" "date ?p = S ''2024-05-10''" "category ?p = S ''Gas''"
    by (simp_all add: exampleParsed_def)
  have g: "list_ex (\<lambda>c. dbname c = S ''Gas'') (getCategories twoGasEnv)" by code_simp
  have h: "list_ex (\<lambda>c. dbname c = S ''gas'') (getCategories twoGasEnv)" by code_simp
  have k: "map_option dbname
             (find (\<lambda>c'. toLowerCase twoGasEnv (dbname c') = toLowerCase twoGasEnv (S ''Gas''))
                (getCategories twoGasEnv)) = Some (S ''Gas'')"
    by code_simp
  from C9_validator_noop[OF a b d e] f k
  have "category (validateAndEnrich twoGasEnv ?p) = S ''Gas''
      \<and> amount (validateAndEnrich twoGasEnv ?p) = Num 5
      \<and> date (validateAndEnrich twoGasEnv ?p) = S ''2024-05-10''"
    by simp
  with g h d e f show ?thesis by simp
qed

text \<open>
  The claim as the specification words it fails when the catalog holds two names that
  differ by letter case only: the validator takes the first of them. With \<open>Gas\<close> before
  \<open>gas\<close> in the catalog, the valid category \<open>gas\<close> comes back as \<open>Gas\<close>.
\<close>

theorem C9_counterexample:
  "list_ex (\<lambda>c. dbname c = category exampleParsed) (getCategories twoGasEnv)
   \<and> nonneg (amount exampleParsed) \<and> isoDate (date exampleParsed)
   \<and> category exampleParsed = S ''gas''
   \<and> category (validateAndEnrich twoGasEnv exampleParsed) = S ''Gas''
   \<and> S ''Gas'' \<noteq> S ''gas''"
proof -
  have "list_ex (\<lambda>c. dbname c = category exampleParsed) (getCategories twoGasEnv)" by code_simp
  moreover have "nonneg (amount exampleParsed)" by (simp add: exampleParsed_def)
  moreover have "isoDate (date exampleParsed)" by code_simp
  moreover have "category exampleParsed = S ''gas''" by (simp add: exampleParsed_def)
  moreover have "category (validateAndEnrich twoGasEnv exampleParsed) = S ''Gas''" by code_simp
  moreover have "S ''Gas'' \<noteq> S ''gas''" by (simp add: S_def)
  ultimately show ?thesis by blast
qed

subsection \<open>C10: the prompt offers the first fifteen categories\<close>

text \<open>
  C10. The prompt of the structured-extraction call, the only call the pipeline makes,
  lists the names of the first fifteen categories that the catalog returns, joined by
  commas, and no more than fifteen: the prompt is the same for any two catalogs that agree
  on their first fifteen entries, so a category beyond the fifteenth is never offered.
  The validator still accepts the name of every catalog category: it returns a catalog
  name that equals the given one up to letter case.
\<close>

theorem C10_first_15:
  "parsePrompt env text =
     S ''Parse this financial transaction: '' @ [34] @ text @ [34, 10]
     @ S ''Available categories: '' @ join (S '', '') (map dbname (take 15 (getCategories env))) @ [10]
     @ S ''Today's date: '' @ today env @ [10]
     @ S ''Return structured data.''
   \<and> length (take 15 (getCategories env)) \<le> 15
   \<and> (\<forall>env'. take 15 (getCategories env') = take 15 (getCategories env)
          \<longrightarrow> today env' = today env
          \<longrightarrow> parsePrompt env' text = parsePrompt env text)
   \<and> (\<forall>r calls. AIService_parseTransaction env text = Inr (r, calls)
          \<longrightarrow> calls = [] \<or> calls = [GenerateObject (parsePrompt env text)])
   \<and> (\<forall>c\<in>set (getCategories env). \<forall>p::ParsedTransaction.
          toLowerCase env (category (validateAndEnrich env (p\<lparr>category := dbname c\<rparr>))) = toLowerCase env (dbname c)
          \<and> category (validateAndEnrich env (p\<lparr>category := dbname c\<rparr>)) \<in> dbname ` set (getCategories env))"
proof (intro conjI allI impI ballI)
  show "parsePrompt env text =
     S ''Parse this financial transaction: '' @ [34] @ text @ [34, 10]
     @ S ''Available categories: '' @ join (S '', '') (map dbname (take 15 (getCategories env))) @ [10]
     @ S ''Today's date: '' @ today env @ [10]
     @ S ''Return structured data.''"
    by (simp add: parsePrompt_def categoryList_take)
next
  show "length (take 15 (getCategories env)) \<le> 15" by simp
next
  fix env' :: Env
  assume "take 15 (getCategories env') = take 15 (getCategories env)"
    and "today env' = today env"
  then show "parsePrompt env' text = parsePrompt env text"
    by (simp add: parsePrompt_def categoryList_take)
next
  fix r calls
  assume a: "AIService_parseTransaction env text = Inr (r, calls)"
  from parseWithRules_eq[of env "text"] obtain rb where "parseWithRules env text = Inr rb" by blast
  from pipeline_cases[OF this] a
  show "calls = [] \<or> calls = [GenerateObject (parsePrompt env text)]" by auto
next
  fix c and p :: ParsedTransaction
  assume c: "c \<in> set (getCategories env)"
  have "toLowerCase env (dbname c) = toLowerCase env (category (p\<lparr>category := dbname c\<rparr>))" by simp
  from validate_exact[OF c this]
  show "toLowerCase env (category (validateAndEnrich env (p\<lparr>category := dbname c\<rparr>))) = toLowerCase env (dbname c)"
    by auto
  from validate_exact[OF c \<open>toLowerCase env (dbname c) = toLowerCase env (category (p\<lparr>category := dbname c\<rparr>))\<close>]
  show "category (validateAndEnrich env (p\<lparr>category := dbname c\<rparr>)) \<in> dbname ` set (getCategories env)"
    by auto
qed

theorem C10_first_15_witness:
  "length (getCategories exampleEnv) = 22
   \<and> parsePrompt (exampleEnv\<lparr>getCategories := take 15 seededCategories\<rparr>) (S ''hello 7'')
       = parsePrompt exampleEnv (S ''hello 7'')
   \<and> \<not> str_includes (parsePrompt exampleEnv (S ''hello 7'')) (S ''Parking'')
   \<and> toLowerCase exampleEnv (category (validateAndEnrich exampleEnv (exampleParsed\<lparr>category := S ''Parking''\<rparr>)))
       = toLowerCase exampleEnv (S ''Parking'')
   \<and> map_sum id snd (AIService_parseTransaction exampleEnv (S ''hello 7''))
       = Inr [GenerateObject (parsePrompt exampleEnv (S ''hello 7''))]"
proof -
  let ?env' = "exampleEnv\<lparr>getCategories := take 15 seededCategories\<rparr>"
  let ?c = "mkDbCategory ''c12'' ''Parking'' Expense"
  note inst = C10_first_15[of exampleEnv "S ''hello 7''"]
  note i3 = inst[THEN conjunct2, THEN conjunct2, THEN conjunct1, rule_format]
  note i4 = inst[THEN conjunct2, THEN conjunct2, THEN conjunct2, THEN conjunct1, rule_format]
  note i5 = inst[THEN conjunct2, THEN conjunct2, THEN conjunct2, THEN conjunct2, rule_format]
  have a: "length (getCategories exampleEnv) = 22"
    by (simp add: exampleEnv_def seededCategories_def)
  have t: "take 15 (getCategories ?env') = take 15 (getCategories exampleEnv)"
    by (simp add: exampleEnv_def)
  have cl: "today ?env' = today exampleEnv" by simp
  from i3[OF t cl] have b: "parsePrompt ?env' (S ''hello 7'') = parsePrompt exampleEnv (S ''hello 7'')" .
  have c: "\<not> str_includes (parsePrompt exampleEnv (S ''hello 7'')) (S ''Parking'')" by code_simp
  have m: "?c \<in> set (getCategories exampleEnv)" by (simp add: exampleEnv_def seededCategories_def)
  have n: "dbname ?c = S ''Parking''" by (simp add: mkDbCategory_def)
  from i5[OF m, of exampleParsed, THEN conjunct1]
  have d: "toLowerCase exampleEnv (category (validateAndEnrich exampleEnv (exampleParsed\<lparr>category := S ''Parking''\<rparr>)))
       = toLowerCase exampleEnv (S ''Parking'')"
    unfolding n .
  have ne: "map_sum id snd (AIService_parseTransaction exampleEnv (S ''hello 7'')) \<noteq> Inr []" by code_simp
  have e: "map_sum id snd (AIService_parseTransaction exampleEnv (S ''hello 7''))
       = Inr [GenerateObject (parsePrompt exampleEnv (S ''hello 7''))]"
  proof (cases "AIService_parseTransaction exampleEnv (S ''hello 7'')")
    case (Inl e)
    from parseWithRules_eq[of exampleEnv "S ''hello 7''"] obtain rb where
      "parseWithRules exampleEnv (S ''hello 7'') = Inr rb" by blast
    from pipeline_cases[OF this] Inl show ?thesis by auto
  next
    case (Inr rc)
    obtain r calls where rc: "rc = (r, calls)" by (cases rc)
    from i4[of r calls] Inr rc have "calls = [] \<or> calls = [GenerateObject (parsePrompt exampleEnv (S ''hello 7''))]"
      by simp
    with ne Inr rc show ?thesis by auto
  qed
  from a b c d e show ?thesis by blast
qed

subsection \<open>C6: the response cache\<close>

text \<open>
  C6, as amended. When the cache holds an entry for the normalized query (lower-cased and
  trimmed) whose timestamp is less than five minutes before the lookup, \<open>processQuery\<close>
  returns the stored text, leaves the cache as it is and makes no call: no local
  computation and no model call. When a call that missed the cache has answered locally
  or by a narrative call that succeeded, any call with the same normalized query less
  than five minutes after that answer was stored returns the same text and makes no call,
  whatever the world is by then: the computation has run once.
\<close>

theorem C6_cache_hit:
  "(\<forall>e. cache (trim (toLowerCase env query)) = Some e \<longrightarrow> tLookup - timestamp e < CACHE_TTL
        \<longrightarrow> processQuery env cache tLookup tStore query = Inr (response e, cache, []))
   \<and> (\<forall>r1 cache1 calls1 env2 query2 tLookup2 tStore2.
         processQuery env cache tLookup tStore query = Inr (r1, cache1, calls1)
         \<longrightarrow> calls1 \<noteq> []
         \<longrightarrow> ((\<exists>r. handleLocalQuery env (toLowerCase env query) = Inr (Some r))
              \<or> (\<exists>context ans. buildFinancialContext env = Inr context
                    \<and> generateText env (queryPrompt context query) = Inr ans))
         \<longrightarrow> trim (toLowerCase env2 query2) = trim (toLowerCase env query)
         \<longrightarrow> tLookup2 - tStore < CACHE_TTL
         \<longrightarrow> processQuery env2 cache1 tLookup2 tStore2 query2 = Inr (r1, cache1, []))"
proof (intro conjI allI impI)
  fix e
  assume "cache (trim (toLowerCase env query)) = Some e" "tLookup - timestamp e < CACHE_TTL"
  then show "processQuery env cache tLookup tStore query = Inr (response e, cache, [])"
    by (rule processQuery_hit[where cache=cache and query=query])
next
  fix r1 cache1 calls1 query2 tLookup2 tStore2 and env2 :: Env
  let ?key = "trim (toLowerCase env query)"
  assume p: "processQuery env cache tLookup tStore query = Inr (r1, cache1, calls1)"
    and c: "calls1 \<noteq> []"
    and ok: "(\<exists>r. handleLocalQuery env (toLowerCase env query) = Inr (Some r))
              \<or> (\<exists>context ans. buildFinancialContext env = Inr context
                    \<and> generateText env (queryPrompt context query) = Inr ans)"
    and k: "trim (toLowerCase env2 query2) = trim (toLowerCase env query)"
    and t: "tLookup2 - tStore < CACHE_TTL"
  have miss: "\<forall>e. cache ?key = Some e \<longrightarrow> \<not> tLookup - timestamp e < CACHE_TTL"
  proof (intro allI impI notI)
    fix e assume "cache ?key = Some e" "tLookup - timestamp e < CACHE_TTL"
    from processQuery_hit[where cache=cache and query=query and env=env and tStore=tStore
        and tLookup=tLookup, OF this] p c
    show False by simp
  qed
  have stored: "cache1 ?key = Some \<lparr>response = r1, timestamp = tStore\<rparr>"
  proof (cases "handleLocalQuery env (toLowerCase env query)")
    case (Inl err)
    from processQuery_throws[where cache=cache and query=query and env=env and tStore=tStore
        and tLookup=tLookup, OF miss Inl] p
    show ?thesis by simp
  next
    case (Inr local)
    show ?thesis
    proof (cases local)
      case (Some r)
      with Inr have "handleLocalQuery env (toLowerCase env query) = Inr (Some r)" by simp
      from processQuery_local[where cache=cache and query=query and env=env and tStore=tStore
          and tLookup=tLookup, OF miss this] p
      show ?thesis by auto
    next
      case None
      with Inr have n: "handleLocalQuery env (toLowerCase env query) = Inr None" by simp
      with ok obtain ctx ans where "buildFinancialContext env = Inr ctx"
        "generateText env (queryPrompt ctx query) = Inr ans"
        by auto
      from processQuery_narrative[where cache=cache and query=query and env=env
          and tStore=tStore and tLookup=tLookup, OF miss n this] p
      show ?thesis by auto
    qed
  qed
  from stored k
  have "cache1 (trim (toLowerCase env2 query2)) = Some \<lparr>response = r1, timestamp = tStore\<rparr>"
    by simp
  from processQuery_hit[where cache=cache1 and query=query2 and env=env2 and tStore=tStore2
      and tLookup=tLookup2, OF this] t
  show "processQuery env2 cache1 tLookup2 tStore2 query2 = Inr (r1, cache1, [])" by simp
qed

theorem C6_cache_hit_witness:
  "processQuery failingEnv [S ''hello'' \<mapsto> \<lparr>response = S ''cached'', timestamp = 1000\<rparr>]
       200000 200001 (S '' Hello '')
     = Inr (S ''cached'', [S ''hello'' \<mapsto> \<lparr>response = S ''cached'', timestamp = 1000\<rparr>], [])
   \<and> (\<exists>cache1.
         processQuery exampleEnv Map.empty 0 5 (S ''what is my balance'')
           = Inr (exampleBalance, cache1, [HandleLocalQuery (S ''what is my balance'')])
         \<and> processQuery failingEnv cache1 299999 300000 (S '' What is MY balance '')
           = Inr (exampleBalance, cache1, []))"
proof -
  let ?c0 = "[S ''hello'' \<mapsto> \<lparr>response = S ''cached'', timestamp = 1000\<rparr>]"
  let ?q1 = "S ''what is my balance''" and ?q2 = "S '' What is MY balance ''"
  note i1 = C6_cache_hit[of ?c0 failingEnv "S '' Hello ''" 200000 200001, THEN conjunct1, rule_format]
  note i2 = C6_cache_hit[of Map.empty exampleEnv ?q1 0 5, THEN conjunct2, rule_format]
  have k: "trim (toLowerCase failingEnv (S '' Hello '')) = S ''hello''" by code_simp
  have "?c0 (trim (toLowerCase failingEnv (S '' Hello ''))) = Some \<lparr>response = S ''cached'', timestamp = 1000\<rparr>"
    unfolding k by simp
  moreover have "(200000::int) - timestamp \<lparr>response = S ''cached'', timestamp = 1000\<rparr> < CACHE_TTL"
    by (simp add: CACHE_TTL_def)
  ultimately have a: "processQuery failingEnv ?c0 200000 200001 (S '' Hello '') = Inr (S ''cached'', ?c0, [])"
    using i1 by fastforce
  have b: "map_sum id (\<lambda>(r, cache1, calls). (r, calls)) (processQuery exampleEnv Map.empty 0 5 ?q1)
             = Inr (exampleBalance, [HandleLocalQuery ?q1])"
    by code_simp
  then obtain cache1 where
    p: "processQuery exampleEnv Map.empty 0 5 ?q1 = Inr (exampleBalance, cache1, [HandleLocalQuery ?q1])"
    by (cases "processQuery exampleEnv Map.empty 0 5 ?q1") auto
  have b': "[HandleLocalQuery ?q1] \<noteq> []" by simp
  have l: "map_sum id (map_option (\<lambda>r. ())) (handleLocalQuery exampleEnv (toLowerCase exampleEnv ?q1))
             = Inr (Some ())"
    by code_simp
  then have "\<exists>r. handleLocalQuery exampleEnv (toLowerCase exampleEnv ?q1) = Inr (Some r)"
    by (cases "handleLocalQuery exampleEnv (toLowerCase exampleEnv ?q1)") auto
  then have l': "(\<exists>r. handleLocalQuery exampleEnv (toLowerCase exampleEnv ?q1) = Inr (Some r))
      \<or> (\<exists>context ans. buildFinancialContext exampleEnv = Inr context
            \<and> generateText exampleEnv (queryPrompt context ?q1) = Inr ans)"
    by blast
  have k2: "trim (toLowerCase failingEnv ?q2) = trim (toLowerCase exampleEnv ?q1)" by code_simp
  have t: "(299999::int) - 5 < CACHE_TTL" by (simp add: CACHE_TTL_def)
  from i2[OF p b' l' k2 t, of 300000]
  have c: "processQuery failingEnv cache1 299999 300000 ?q2 = Inr (exampleBalance, cache1, [])" .
  from a p c show ?thesis by blast
qed

text \<open>
  The claim as the specification words it fails when the narrative call throws: the help
  message is not stored, so the same query a few milliseconds later runs the local
  answerer, builds the context and calls the model once more.
\<close>

theorem C6_counterexample:
  "handleLocalQuery failingEnv (toLowerCase failingEnv (S ''hello'')) = Inr None
   \<and> buildFinancialContext failingEnv = Inr exampleContext
   \<and> (20 :: int) - 10 < CACHE_TTL
   \<and> (case processQuery failingEnv Map.empty 0 10 (S ''hello'') of
         Inl err \<Rightarrow> False
       | Inr (r1, cache1, calls1) \<Rightarrow>
           r1 = helpMessage
           \<and> calls1 = [HandleLocalQuery (S ''hello''), BuildFinancialContext,
                        GenerateText (queryPrompt exampleContext (S ''hello''))]
           \<and> map_sum id (snd \<circ> snd) (processQuery failingEnv cache1 20 30 (S ''hello''))
               = Inr [HandleLocalQuery (S ''hello''), BuildFinancialContext,
                      GenerateText (queryPrompt exampleContext (S ''hello''))])"
proof -
  have "handleLocalQuery failingEnv (toLowerCase failingEnv (S ''hello'')) = Inr None" by code_simp
  moreover have "buildFinancialContext failingEnv = Inr exampleContext" by code_simp
  moreover have "(20 :: int) - 10 < CACHE_TTL" by (simp add: CACHE_TTL_def)
  moreover have "case processQuery failingEnv Map.empty 0 10 (S ''hello'') of
         Inl err \<Rightarrow> False
       | Inr (r1, cache1, calls1) \<Rightarrow>
           r1 = helpMessage
           \<and> calls1 = [HandleLocalQuery (S ''hello''), BuildFinancialContext,
                        GenerateText (queryPrompt exampleContext (S ''hello''))]
           \<and> map_sum id (snd \<circ> snd) (processQuery failingEnv cache1 20 30 (S ''hello''))
               = Inr [HandleLocalQuery (S ''hello''), BuildFinancialContext,
                      GenerateText (queryPrompt exampleContext (S ''hello''))]"
    by code_simp
  ultimately show ?thesis by blast
qed

subsection \<open>C7: what processQuery returns\<close>

text \<open>
  C7, as amended. \<open>processQuery\<close> calls \<open>handleLocalQuery\<close> outside its \<open>try\<close> block:
  when no fresh cache entry answers first, it throws exactly what \<open>handleLocalQuery\<close>
  throws, and so it throws a \<open>TypeError\<close> on every question about the balance when an
  account has the balance \<open>null\<close>. Otherwise it returns a string, in one of four ways:
  the stored text of a fresh cache entry; a local answer, which is never empty and is
  stored; the trimmed text of a narrative call that succeeded, which is stored (and is
  empty when the model's text is white space only); or, when building the context or the
  narrative call throws, the fixed help message, which is not empty and is not stored: the
  cache is left as it was. No exception of the narrative call leaves the function.
\<close>

theorem C7_processQuery_answers:
  "(case processQuery env cache tLookup tStore query of
      Inl err \<Rightarrow>
        (\<forall>e. cache (trim (toLowerCase env query)) = Some e \<longrightarrow> \<not> tLookup - timestamp e < CACHE_TTL)
        \<and> handleLocalQuery env (toLowerCase env query) = Inl err
    | Inr (r, cache', calls) \<Rightarrow>
        (\<exists>e. cache (trim (toLowerCase env query)) = Some e \<and> tLookup - timestamp e < CACHE_TTL
              \<and> r = response e \<and> cache' = cache \<and> calls = [])
        \<or> (handleLocalQuery env (toLowerCase env query) = Inr (Some r) \<and> r \<noteq> []
              \<and> cache' = cache(trim (toLowerCase env query) \<mapsto> \<lparr>response = r, timestamp = tStore\<rparr>))
        \<or> (handleLocalQuery env (toLowerCase env query) = Inr None
              \<and> (\<exists>context ans. buildFinancialContext env = Inr context
                    \<and> generateText env (queryPrompt context query) = Inr ans \<and> r = trim ans
                    \<and> cache' = cache(trim (toLowerCase env query)
                                        \<mapsto> \<lparr>response = r, timestamp = tStore\<rparr>)))
        \<or> (handleLocalQuery env (toLowerCase env query) = Inr None
              \<and> r = helpMessage \<and> r \<noteq> [] \<and> cache' = cache
              \<and> ((\<exists>err. buildFinancialContext env = Inl err)
                   \<or> (\<exists>context err. buildFinancialContext env = Inr context
                         \<and> generateText env (queryPrompt context query) = Inl err))))
   \<and> (\<forall>err. (\<forall>e. cache (trim (toLowerCase env query)) = Some e \<longrightarrow> \<not> tLookup - timestamp e < CACHE_TTL)
          \<longrightarrow> handleLocalQuery env (toLowerCase env query) = Inl err
          \<longrightarrow> processQuery env cache tLookup tStore query = Inl err)
   \<and> ((\<forall>e. cache (trim (toLowerCase env query)) = Some e \<longrightarrow> \<not> tLookup - timestamp e < CACHE_TTL)
          \<longrightarrow> balanceQuery (toLowerCase env query)
          \<longrightarrow> (\<exists>a\<in>set (getAccounts env). a_balance a = None)
          \<longrightarrow> processQuery env cache tLookup tStore query = Inl TypeError)
   \<and> (\<forall>context err.
          (\<forall>e. cache (trim (toLowerCase env query)) = Some e \<longrightarrow> \<not> tLookup - timestamp e < CACHE_TTL)
          \<longrightarrow> handleLocalQuery env (toLowerCase env query) = Inr None
          \<longrightarrow> buildFinancialContext env = Inr context
          \<longrightarrow> generateText env (queryPrompt context query) = Inl err
          \<longrightarrow> processQuery env cache tLookup tStore query =
                Inr (helpMessage, cache,
                     [HandleLocalQuery (toLowerCase env query), BuildFinancialContext,
                      GenerateText (queryPrompt context query)]))"
proof (intro conjI allI impI)
  let ?key = "trim (toLowerCase env query)"
  let ?lq = "toLowerCase env query"
  let ?goal = "\<lambda>res. case res of
      Inl err \<Rightarrow>
        (\<forall>e. cache ?key = Some e \<longrightarrow> \<not> tLookup - timestamp e < CACHE_TTL)
        \<and> handleLocalQuery env ?lq = Inl err
    | Inr (r, cache', calls) \<Rightarrow>
        (\<exists>e. cache ?key = Some e \<and> tLookup - timestamp e < CACHE_TTL
              \<and> r = response e \<and> cache' = cache \<and> calls = [])
        \<or> (handleLocalQuery env ?lq = Inr (Some r) \<and> r \<noteq> []
              \<and> cache' = cache(?key \<mapsto> \<lparr>response = r, timestamp = tStore\<rparr>))
        \<or> (handleLocalQuery env ?lq = Inr None
              \<and> (\<exists>context ans. buildFinancialContext env = Inr context
                    \<and> generateText env (queryPrompt context query) = Inr ans \<and> r = trim ans
                    \<and> cache' = cache(?key \<mapsto> \<lparr>response = r, timestamp = tStore\<rparr>)))
        \<or> (handleLocalQuery env ?lq = Inr None
              \<and> r = helpMessage \<and> r \<noteq> [] \<and> cache' = cache
              \<and> ((\<exists>err. buildFinancialContext env = Inl err)
                   \<or> (\<exists>context err. buildFinancialContext env = Inr context
                         \<and> generateText env (queryPrompt context query) = Inl err)))"
  show "?goal (processQuery env cache tLookup tStore query)"
  proof (cases "\<exists>e. cache ?key = Some e \<and> tLookup - timestamp e < CACHE_TTL")
    case True
    then obtain e where e: "cache ?key = Some e" "tLookup - timestamp e < CACHE_TTL" by blast
    from processQuery_hit[where cache=cache and query=query and env=env and tStore=tStore
        and tLookup=tLookup, OF e] e
    show ?thesis by simp
  next
    case False
    then have miss: "\<forall>e. cache ?key = Some e \<longrightarrow> \<not> tLookup - timestamp e < CACHE_TTL" by blast
    show ?thesis
    proof (cases "handleLocalQuery env ?lq")
      case (Inl err)
      from processQuery_throws[where cache=cache and query=query and env=env and tStore=tStore
          and tLookup=tLookup, OF miss Inl] miss Inl
      show ?thesis by simp
    next
      case (Inr local)
      show ?thesis
      proof (cases local)
        case (Some r)
        with Inr have s: "handleLocalQuery env ?lq = Inr (Some r)" by simp
        from processQuery_local[where cache=cache and query=query and env=env and tStore=tStore
            and tLookup=tLookup, OF miss s] handleLocalQuery_nonempty[OF s] s
        show ?thesis by simp
      next
        case None
        with Inr have n: "handleLocalQuery env ?lq = Inr None" by simp
        show ?thesis
        proof (cases "buildFinancialContext env")
          case (Inl err)
          from processQuery_nocontext[where cache=cache and query=query and env=env
              and tStore=tStore and tLookup=tLookup, OF miss n Inl] n Inl helpMessage_nonempty
          show ?thesis by simp
        next
          case ctx: (Inr c)
          show ?thesis
          proof (cases "generateText env (queryPrompt c query)")
            case (Inr ans)
            from processQuery_narrative[where cache=cache and query=query and env=env
                and tStore=tStore and tLookup=tLookup, OF miss n ctx Inr] n ctx Inr
            show ?thesis by simp
          next
            case (Inl err)
            from processQuery_failure[where cache=cache and query=query and env=env
                and tStore=tStore and tLookup=tLookup, OF miss n ctx Inl] n ctx Inl
              helpMessage_nonempty
            show ?thesis by simp
          qed
        qed
      qed
    qed
  qed
next
  fix err
  assume "\<forall>e. cache (trim (toLowerCase env query)) = Some e \<longrightarrow> \<not> tLookup - timestamp e < CACHE_TTL"
    and "handleLocalQuery env (toLowerCase env query) = Inl err"
  then show "processQuery env cache tLookup tStore query = Inl err"
    by (rule processQuery_throws[where cache=cache and query=query])
next
  assume miss: "\<forall>e. cache (trim (toLowerCase env query)) = Some e \<longrightarrow> \<not> tLookup - timestamp e < CACHE_TTL"
    and b: "balanceQuery (toLowerCase env query)"
    and n: "\<exists>a\<in>set (getAccounts env). a_balance a = None"
  from n balanceAnswer_null have "balanceAnswer env = Inl TypeError" by blast
  with b have "handleLocalQuery env (toLowerCase env query) = Inl TypeError"
    by (simp add: handleLocalQuery_def balanceQuery_def)
  with miss show "processQuery env cache tLookup tStore query = Inl TypeError"
    by (rule processQuery_throws[where cache=cache and query=query])
next
  fix ctx err
  assume "\<forall>e. cache (trim (toLowerCase env query)) = Some e \<longrightarrow> \<not> tLookup - timestamp e < CACHE_TTL"
    and "handleLocalQuery env (toLowerCase env query) = Inr None"
    and "buildFinancialContext env = Inr ctx"
    and "generateText env (queryPrompt ctx query) = Inl err"
  then show "processQuery env cache tLookup tStore query =
                Inr (helpMessage, cache,
                     [HandleLocalQuery (toLowerCase env query), BuildFinancialContext,
                      GenerateText (queryPrompt ctx query)])"
    by (rule processQuery_failure[where cache=cache and query=query])
qed

theorem C7_processQuery_answers_witness:
  "handleLocalQuery failingEnv (toLowerCase failingEnv (S ''hello'')) = Inr None
   \<and> buildFinancialContext failingEnv = Inr exampleContext
   \<and> generateText failingEnv (queryPrompt exampleContext (S ''hello''))
       = Inl (Thrown (S ''connection refused''))
   \<and> processQuery failingEnv Map.empty 0 1 (S ''hello'') =
        Inr (helpMessage, Map.empty,
             [HandleLocalQuery (toLowerCase failingEnv (S ''hello'')), BuildFinancialContext,
              GenerateText (queryPrompt exampleContext (S ''hello''))])
   \<and> helpMessage \<noteq> []
   \<and> map_sum id fst (processQuery exampleEnv Map.empty 0 1 (S ''How is my Budget? ''))
        = Inr (S ''You haven't set up any budgets yet.'')
   \<and> balanceQuery (toLowerCase nullBalanceEnv (S ''Total?''))
   \<and> map_sum id fst (processQuery nullBalanceEnv Map.empty 0 1 (S ''Total?'')) = Inl TypeError"
proof -
  note thrown = C7_processQuery_answers[where env=nullBalanceEnv and cache=Map.empty and tLookup=0
      and tStore=1 and query="S ''Total?''",
      THEN conjunct2, THEN conjunct2, THEN conjunct1, rule_format]
  note inst = C7_processQuery_answers[where env=failingEnv and cache=Map.empty and tLookup=0
      and tStore=1 and query="S ''hello''",
      THEN conjunct2, THEN conjunct2, THEN conjunct2, rule_format]
  have a: "handleLocalQuery failingEnv (toLowerCase failingEnv (S ''hello'')) = Inr None" by code_simp
  have x: "buildFinancialContext failingEnv = Inr exampleContext" by code_simp
  have b: "generateText failingEnv (queryPrompt exampleContext (S ''hello''))
       = Inl (Thrown (S ''connection refused''))"
    by (simp add: failingEnv_def exampleEnv_def)
  have m: "Map.empty (trim (toLowerCase failingEnv (S ''hello''))) = Some e \<Longrightarrow> \<not> 0 - timestamp e < CACHE_TTL"
    for e :: CacheEntry
    by simp
  from inst[OF m a x b]
  have c: "processQuery failingEnv Map.empty 0 1 (S ''hello'') =
        Inr (helpMessage, Map.empty,
             [HandleLocalQuery (toLowerCase failingEnv (S ''hello'')), BuildFinancialContext,
              GenerateText (queryPrompt exampleContext (S ''hello''))])" .
  have d: "map_sum id fst (processQuery exampleEnv Map.empty 0 1 (S ''How is my Budget? ''))
        = Inr (S ''You haven't set up any budgets yet.'')"
    by code_simp
  have m': "Map.empty (trim (toLowerCase nullBalanceEnv (S ''Total?''))) = Some e
      \<Longrightarrow> \<not> 0 - timestamp e < CACHE_TTL"
    for e :: CacheEntry
    by simp
  have q: "balanceQuery (toLowerCase nullBalanceEnv (S ''Total?''))" by code_simp
  have n: "\<exists>a\<in>set (getAccounts nullBalanceEnv). a_balance a = None" by code_simp
  from thrown[OF m' q n]
  have f: "map_sum id fst (processQuery nullBalanceEnv Map.empty 0 1 (S ''Total?'')) = Inl TypeError"
    by simp
  from a x b c d q f helpMessage_nonempty show ?thesis by blast
qed

text \<open>
  The claim as the specification words it fails in two ways. When the narrative call
  succeeds with a text of white space only, the trimmed text, the empty string, is
  returned (and cached). And when an account has the balance \<open>null\<close>, a question about
  the balance makes \<open>handleLocalQuery\<close> throw a \<open>TypeError\<close>, which leaves
  \<open>processQuery\<close>: the call stands before the \<open>try\<close> block.
\<close>

theorem C7_counterexample:
  "handleLocalQuery blankEnv (toLowerCase blankEnv (S ''hello'')) = Inr None
   \<and> generateText blankEnv (queryPrompt exampleContext (S ''hello'')) = Inr (S ''  '')
   \<and> map_sum id fst (processQuery blankEnv Map.empty 0 1 (S ''hello'')) = Inr []
   \<and> list_ex (\<lambda>a. a_balance a = None) (getAccounts nullBalanceEnv)
   \<and> balanceQuery (toLowerCase nullBalanceEnv (S ''What is my balance?''))
   \<and> handleLocalQuery nullBalanceEnv (toLowerCase nullBalanceEnv (S ''What is my balance?''))
       = Inl TypeError
   \<and> map_sum id fst (processQuery nullBalanceEnv Map.empty 0 1 (S ''What is my balance?''))
       = Inl TypeError"
proof -
  have "handleLocalQuery blankEnv (toLowerCase blankEnv (S ''hello'')) = Inr None" by code_simp
  moreover have "generateText blankEnv (queryPrompt exampleContext (S ''hello'')) = Inr (S ''  '')"
    by (simp add: blankEnv_def exampleEnv_def)
  moreover have "map_sum id fst (processQuery blankEnv Map.empty 0 1 (S ''hello'')) = Inr []"
    by code_simp
  moreover have "list_ex (\<lambda>a. a_balance a = None) (getAccounts nullBalanceEnv)" by code_simp
  moreover have "balanceQuery (toLowerCase nullBalanceEnv (S ''What is my balance?''))" by code_simp
  moreover have "handleLocalQuery nullBalanceEnv (toLowerCase nullBalanceEnv (S ''What is my balance?''))
       = Inl TypeError"
    by code_simp
  moreover have "map_sum id fst (processQuery nullBalanceEnv Map.empty 0 1 (S ''What is my balance?''))
       = Inl TypeError"
    by code_simp
  ultimately show ?thesis by blast
qed

end
